theory Spec2Isabelle
  imports Complex_Main "HOL-Library.Word" "HOL-Library.Signed_Division" "HOL-Library.Sublist"
begin

unbundle bit_operations_syntax

section \<open>IdentificationQuery\<close>

text \<open>
  The C type \<open>int\<close> of \<open>cpuid_helper.cpp\<close> is a 32-bit two's-complement integer, modelled
  as \<open>32 word\<close>: comparisons between two \<open>int\<close>s are the signed ones (\<open>\<le>s\<close>, \<open><s\<close>), a
  right shift of an \<open>int\<close> is arithmetic (\<open>signed_drop_bit\<close>), and a comparison against
  a literal that does not fit \<open>int\<close> (\<open>0x80000004\<close>) is unsigned, as C's usual arithmetic
  conversions make it.
\<close>

record CPUIDResult =
  eax :: "32 word"
  ebx :: "32 word"
  ecx :: "32 word"
  edx :: "32 word"

text \<open>The instruction \<open>__cpuidex\<close> as seen from one logical processor: leaf and subleaf
  in, four words out.\<close>

type_synonym cpuid_fn = "32 word \<Rightarrow> 32 word \<Rightarrow> CPUIDResult"

definition read_cpuid :: "cpuid_fn \<Rightarrow> 32 word \<Rightarrow> 32 word \<Rightarrow> CPUIDResult" where
  "read_cpuid hw leaf subleaf = hw leaf subleaf"

definition get_max_cpuid_leaf :: "cpuid_fn \<Rightarrow> 32 word" where
  "get_max_cpuid_leaf hw = eax (read_cpuid hw 0 0)"

section \<open>VendorDetector\<close>

datatype CpuVendor = VENDOR_UNKNOWN | VENDOR_INTEL | VENDOR_AMD

text \<open>The four bytes of a word in memory order (little endian), as \<open>memcpy\<close> copies them.\<close>

definition word_bytes :: "32 word \<Rightarrow> string" where
  "word_bytes w = map (\<lambda>i. char_of (unat (drop_bit (8 * i) w))) [0, 1, 2, 3]"

definition get_cpu_vendor :: "cpuid_fn \<Rightarrow> CpuVendor" where
  "get_cpu_vendor hw =
     (let r = read_cpuid hw 0 0;
          vendor = word_bytes (ebx r) @ word_bytes (edx r) @ word_bytes (ecx r)
      in if vendor = ''GenuineIntel'' then VENDOR_INTEL
         else if vendor = ''AuthenticAMD'' then VENDOR_AMD
         else VENDOR_UNKNOWN)"

section \<open>Brand string\<close>

text \<open>A C string is the bytes before the first NUL of its buffer.\<close>

definition c_str :: "string \<Rightarrow> string" where
  "c_str buf = takeWhile (\<lambda>c. c \<noteq> CHR 0x00) buf"

text \<open>\<open>get_brand_string\<close>: the buffer starts zeroed; with the extended leaves missing
  the string is empty, otherwise it is the 48 bytes of leaves 0x80000002..4.\<close>

definition get_brand_string :: "cpuid_fn \<Rightarrow> string" where
  "get_brand_string hw =
     (let max_ext = eax (read_cpuid hw 0x80000000 0)
      in if max_ext < 0x80000004 then []
         else concat (map (\<lambda>i. let r = read_cpuid hw (0x80000002 + i) 0
                                in word_bytes (eax r) @ word_bytes (ebx r) @
                                   word_bytes (ecx r) @ word_bytes (edx r)) [0, 1, 2]))"

subsection \<open>Floating-point arithmetic\<close>

text \<open>
  The code computes with \<open>double\<close>s in two places, the brand-string parser and the
  leaf-0x15 stage. The model leaves that arithmetic open: a value of type \<open>'d fpu\<close> gives
  the operations of the machine on its doubles, of whatever type \<open>'d\<close>: the double a
  literal denotes, the conversion of an \<open>int\<close>, \<open>+\<close>, \<open>*\<close>, \<open>/\<close>, \<open>\<le>\<close>, \<open><\<close>, the cast
  \<open>(int)\<close> and \<open>atof\<close>. A statement about an arbitrary \<open>fpu\<close> holds however the machine
  rounds.
\<close>

record 'd fpu =
  fp_lit :: "real \<Rightarrow> 'd"
  fp_of_int :: "int \<Rightarrow> 'd"
  fp_add :: "'d \<Rightarrow> 'd \<Rightarrow> 'd"
  fp_mul :: "'d \<Rightarrow> 'd \<Rightarrow> 'd"
  fp_div :: "'d \<Rightarrow> 'd \<Rightarrow> 'd"
  fp_le :: "'d \<Rightarrow> 'd \<Rightarrow> bool"
  fp_lt :: "'d \<Rightarrow> 'd \<Rightarrow> bool"
  fp_to_int :: "'d \<Rightarrow> 32 word"
  fp_atof :: "string \<Rightarrow> 'd"

text \<open>
  The arithmetic without rounding, for evaluating the model on concrete inputs: doubles
  are the real numbers they stand for, \<open>atof\<close> gives the exact decimal value. The cast
  \<open>(int)\<close> truncates towards zero; a value outside the range of \<open>int\<close> gives
  0x80000000, as the x86 conversion instruction does.
\<close>

definition double_to_int :: "real \<Rightarrow> 32 word" where
  "double_to_int x =
     (let t = (if x < 0 then - \<lfloor>- x\<rfloor> else \<lfloor>x\<rfloor>)
      in if - (2 ^ 31) \<le> t \<and> t < 2 ^ 31 then word_of_int t else 0x80000000)"

subsection \<open>The parser\<close>

definition is_digit :: "char \<Rightarrow> bool" where
  "is_digit c = (48 \<le> (of_char c :: nat) \<and> (of_char c :: nat) \<le> 57)"

definition digit_or_dot :: "char \<Rightarrow> bool" where
  "digit_or_dot c = (is_digit c \<or> c = CHR ''.'')"

definition to_upper :: "char \<Rightarrow> char" where
  "to_upper c =
     (if 97 \<le> (of_char c :: nat) \<and> (of_char c :: nat) \<le> 122
      then char_of ((of_char c :: nat) - 32) else c)"

text \<open>\<open>strstr\<close>: the offset of the first occurrence of the needle, \<open>None\<close> for NULL.\<close>

fun strstr :: "string \<Rightarrow> string \<Rightarrow> nat option" where
  "strstr [] needle = (if needle = [] then Some 0 else None)"
| "strstr (c # cs) needle =
     (if prefix needle (c # cs) then Some 0 else map_option Suc (strstr cs needle))"

text \<open>The backward walk \<open>while (p >= upper && ...) p--; p++\<close>. The argument is \<open>p + 1\<close>
  as an offset into \<open>upper\<close>, and so is the result.\<close>

fun walk_back :: "string \<Rightarrow> nat \<Rightarrow> nat" where
  "walk_back upper 0 = 0"
| "walk_back upper (Suc p) =
     (if digit_or_dot (upper ! p) \<or> upper ! p = CHR '' '' then walk_back upper p else Suc p)"

text \<open>The copy loop \<open>while (p < target && nlen < sizeof(number) - 1)\<close> over the
  characters from \<open>p\<close> up to \<open>target\<close>.\<close>

fun collect_number :: "string \<Rightarrow> string \<Rightarrow> string" where
  "collect_number [] number = number"
| "collect_number (c # cs) number =
     (if length number < 31
      then collect_number cs (if digit_or_dot c then number @ [c] else number)
      else number)"

definition dec_value :: "string \<Rightarrow> nat" where
  "dec_value ds = foldl (\<lambda>a c. 10 * a + ((of_char c :: nat) - 48)) 0 ds"

text \<open>\<open>atof\<close> on a string of digits and dots: the longest prefix of the form
  digits, optional dot, digits; 0 when that prefix holds no digit.\<close>

definition atof :: "string \<Rightarrow> real" where
  "atof s =
     (let ip = takeWhile is_digit s;
          rest = dropWhile is_digit s;
          frac = (case rest of [] \<Rightarrow> []
                  | c # cs \<Rightarrow> if c = CHR ''.'' then takeWhile is_digit cs else [])
      in if ip = [] \<and> frac = [] then 0
         else of_nat (dec_value (ip @ frac)) / 10 ^ length frac)"

definition exact_fpu :: "real fpu" where
  "exact_fpu = \<lparr>fp_lit = (\<lambda>x. x), fp_of_int = real_of_int, fp_add = (+), fp_mul = (*),
                 fp_div = (/), fp_le = (\<le>), fp_lt = (<), fp_to_int = double_to_int,
                 fp_atof = atof\<rparr>"

text \<open>\<open>parse_frequency_from_brand\<close>: \<open>None\<close> is the return value 0 (nothing stored),
  \<open>Some v\<close> the return value 1 with \<open>v\<close> stored through \<open>freq_mhz_out\<close>.\<close>

definition parse_frequency_from_brand :: "'d fpu \<Rightarrow> string \<Rightarrow> 32 word option" where
  "parse_frequency_from_brand fp brand =
     (let upper = map to_upper (take 127 (c_str brand));
          ghz = strstr upper ''GHZ'';
          mhz = strstr upper ''MHZ'';
          target = (if ghz \<noteq> None then ghz else mhz)
      in case target of
           None \<Rightarrow> None
         | Some t \<Rightarrow>
             let p = walk_back upper t;
                 number = collect_number (drop p (take t upper)) []
             in if length number = 0 then None
                else let val = fp_atof fp number
                     in if fp_le fp val (fp_lit fp 0) then None
                        else if ghz \<noteq> None \<and> ghz = target
                             then Some (fp_to_int fp (fp_add fp (fp_mul fp val (fp_lit fp 1000))
                                                        (fp_lit fp (1 / 2))))
                             else Some (fp_to_int fp (fp_add fp val (fp_lit fp (1 / 2)))))"

section \<open>FrequencyResolver\<close>

text \<open>The locals \<open>base_mhz\<close>, \<open>max_mhz\<close>, \<open>bus_mhz\<close> and \<open>success\<close> of \<open>main\<close>, threaded
  through the blocks of the fallback chain in the order \<open>main\<close> runs them.\<close>

record freq_vars =
  base_mhz :: "32 word"
  max_mhz :: "32 word"
  bus_mhz :: "32 word"
  success :: "32 word"

definition freq_init :: freq_vars where
  "freq_init = \<lparr>base_mhz = 0, max_mhz = 0, bus_mhz = 0, success = 0\<rparr>"

text \<open>The guard of each block: the block's body runs (the stage is attempted) exactly
  when its guard holds.\<close>

definition leaf16_attempted :: "32 word \<Rightarrow> bool" where
  "leaf16_attempted max_leaf = (0x16 \<le>s max_leaf)"

definition leaf15_attempted :: "32 word \<Rightarrow> bool" where
  "leaf15_attempted max_leaf = (0x15 \<le>s max_leaf)"

definition brand_attempted :: "freq_vars \<Rightarrow> bool" where
  "brand_attempted s = (success s = 0 \<or> base_mhz s = 0 \<or> max_mhz s = 0)"

definition wmi_attempted :: "freq_vars \<Rightarrow> bool" where
  "wmi_attempted s = (max_mhz s = 0)"

definition stage_leaf16 :: "cpuid_fn \<Rightarrow> 32 word \<Rightarrow> freq_vars \<Rightarrow> freq_vars" where
  "stage_leaf16 hw max_leaf s =
     (if leaf16_attempted max_leaf then
        let result = read_cpuid hw 0x16 0;
            s1 = s\<lparr>base_mhz := eax result AND 0xFFFF,
                    max_mhz := ebx result AND 0xFFFF,
                    bus_mhz := ecx result AND 0xFFFF\<rparr>
        in if 0 <s base_mhz s1 \<and> 0 <s max_mhz s1 then s1\<lparr>success := 1\<rparr> else s1
      else s)"

text \<open>The doubles \<open>crystal_mhz\<close> and \<open>derived_base\<close> of the leaf-0x15 block.\<close>

definition crystal_mhz_of :: "'d fpu \<Rightarrow> CPUIDResult \<Rightarrow> 'd" where
  "crystal_mhz_of fp r15 = fp_div fp (fp_of_int fp (sint (ecx r15))) (fp_lit fp 1000000)"

definition derived_base_of :: "'d fpu \<Rightarrow> CPUIDResult \<Rightarrow> 'd" where
  "derived_base_of fp r15 =
     (let ratio = fp_div fp (fp_of_int fp (sint (ebx r15))) (fp_of_int fp (sint (eax r15)))
      in fp_mul fp (crystal_mhz_of fp r15) ratio)"

definition stage_leaf15 :: "'d fpu \<Rightarrow> cpuid_fn \<Rightarrow> 32 word \<Rightarrow> freq_vars \<Rightarrow> freq_vars" where
  "stage_leaf15 fp hw max_leaf s =
     (if leaf15_attempted max_leaf then
        let r15 = read_cpuid hw 0x15 0
        in if 0 <s eax r15 \<and> 0 <s ebx r15 \<and> 0 <s ecx r15 then
             let crystal_mhz = crystal_mhz_of fp r15;
                 derived_base = derived_base_of fp r15;
                 s1 = (if bus_mhz s = 0
                       then s\<lparr>bus_mhz :=
                                 fp_to_int fp (fp_add fp crystal_mhz (fp_lit fp (1 / 2)))\<rparr>
                       else s)
             in if base_mhz s1 = 0 \<and> fp_lt fp (fp_lit fp 0) derived_base then
                  let s2 = s1\<lparr>base_mhz :=
                                  fp_to_int fp (fp_add fp derived_base (fp_lit fp (1 / 2)))\<rparr>;
                      s3 = (if max_mhz s2 = 0 then s2\<lparr>max_mhz := base_mhz s2\<rparr> else s2)
                  in s3\<lparr>success := 1\<rparr>
                else s1
           else s
      else s)"

definition turbo_flag :: "cpuid_fn \<Rightarrow> 32 word \<Rightarrow> 32 word" where
  "turbo_flag hw max_leaf =
     (if 0x06 \<le>s max_leaf
      then (if eax (read_cpuid hw 0x06 0) AND 0x02 \<noteq> 0 then 1 else 0)
      else 0)"

definition stage_brand :: "'d fpu \<Rightarrow> string \<Rightarrow> freq_vars \<Rightarrow> freq_vars" where
  "stage_brand fp brand s =
     (if brand_attempted s then
        (case parse_frequency_from_brand fp brand of
           None \<Rightarrow> s
         | Some parsed_mhz \<Rightarrow>
             if 0 <s parsed_mhz then
               let s1 = (if base_mhz s = 0 then s\<lparr>base_mhz := parsed_mhz\<rparr> else s);
                   s2 = (if max_mhz s1 = 0 then s1\<lparr>max_mhz := parsed_mhz\<rparr> else s1)
               in s2\<lparr>success := 1\<rparr>
             else s)
      else s)"

text \<open>\<open>wmi_max\<close> is what \<open>get_max_clock_wmi\<close> returns, the management layer's answer
  (0 when the query fails); the call is made only when the guard holds.\<close>

definition stage_wmi :: "32 word \<Rightarrow> freq_vars \<Rightarrow> freq_vars" where
  "stage_wmi wmi_max s =
     (if wmi_attempted s then
        (if 0 <s wmi_max then
           let s1 = s\<lparr>max_mhz := wmi_max\<rparr>;
               s2 = (if base_mhz s1 = 0 then s1\<lparr>base_mhz := wmi_max\<rparr> else s1)
           in s2\<lparr>success := 1\<rparr>
         else s)
      else s)"

definition stage_final :: "32 word \<Rightarrow> freq_vars \<Rightarrow> freq_vars" where
  "stage_final max_leaf s =
     (if success s = 0 \<and> 0x80000002 \<le> max_leaf then s\<lparr>success := 0\<rparr> else s)"

text \<open>Lines 530 to 619 of \<open>main\<close>: the values the frequency fields are printed from.\<close>

definition resolve_frequency :: "'d fpu \<Rightarrow> cpuid_fn \<Rightarrow> 32 word \<Rightarrow> freq_vars" where
  "resolve_frequency fp hw wmi_max =
     (let brand = get_brand_string hw;
          max_leaf = get_max_cpuid_leaf hw;
          s16 = stage_leaf16 hw max_leaf freq_init;
          s15 = stage_leaf15 fp hw max_leaf s16;
          sb = stage_brand fp brand s15;
          sw = stage_wmi wmi_max sb
      in stage_final max_leaf sw)"

section \<open>CacheHierarchyDecoder\<close>

record CacheInfo =
  size_kb :: "32 word"
  assoc :: "32 word"
  line_size :: "32 word"
  partitions :: "32 word"
  sets :: "32 word"
  cores_sharing :: "32 word"
  is_inclusive :: "32 word"

text \<open>\<open>CacheInfo x = {0}\<close>.\<close>

definition cache_zero :: CacheInfo where
  "cache_zero = \<lparr>size_kb = 0, assoc = 0, line_size = 0, partitions = 0, sets = 0,
                  cores_sharing = 0, is_inclusive = 0\<rparr>"

text \<open>The four records \<open>main\<close> passes by pointer; the pointers are distinct locals.\<close>

record caches =
  l1d :: CacheInfo
  l1i :: CacheInfo
  l2 :: CacheInfo
  l3 :: CacheInfo

definition caches_zero :: caches where
  "caches_zero = \<lparr>l1d = cache_zero, l1i = cache_zero, l2 = cache_zero, l3 = cache_zero\<rparr>"

datatype cache_target = L1D | L1I | L2 | L3

fun get_level :: "cache_target \<Rightarrow> caches \<Rightarrow> CacheInfo" where
  "get_level L1D cs = l1d cs"
| "get_level L1I cs = l1i cs"
| "get_level L2 cs = l2 cs"
| "get_level L3 cs = l3 cs"

fun set_level :: "cache_target \<Rightarrow> CacheInfo \<Rightarrow> caches \<Rightarrow> caches" where
  "set_level L1D c cs = cs\<lparr>l1d := c\<rparr>"
| "set_level L1I c cs = cs\<lparr>l1i := c\<rparr>"
| "set_level L2 c cs = cs\<lparr>l2 := c\<rparr>"
| "set_level L3 c cs = cs\<lparr>l3 := c\<rparr>"

text \<open>The pointer \<open>target\<close>: \<open>None\<close> is NULL.\<close>

definition select_target :: "32 word \<Rightarrow> 32 word \<Rightarrow> cache_target option" where
  "select_target cache_type level =
     (if cache_type = 1 then (if level = 1 then Some L1D else None)
      else if cache_type = 2 then (if level = 1 then Some L1I else None)
      else if cache_type = 3 then
        (if level = 1 then Some L1D
         else if level = 2 then Some L2
         else if level = 3 then Some L3
         else None)
      else None)"

text \<open>\<open>for (int i = 0; i < 12 && ((apic_mask >> i) & 1); i++) bit_count++;\<close>\<close>

function bit_count_loop :: "32 word \<Rightarrow> nat \<Rightarrow> nat \<Rightarrow> nat" where
  "bit_count_loop apic_mask i bit_count =
     (if i < 12 \<and> drop_bit i apic_mask AND 1 \<noteq> 0
      then bit_count_loop apic_mask (i + 1) (bit_count + 1)
      else bit_count)"
  by pat_completeness auto
termination
  by (relation "measure (\<lambda>(apic_mask, i, bit_count). 12 - i)") auto

declare bit_count_loop.simps [simp del]

definition decode_cores_sharing :: "32 word \<Rightarrow> 32 word" where
  "decode_cores_sharing eax_word =
     (let apic_mask = signed_drop_bit 14 eax_word AND 0xFFF;
          bit_count = bit_count_loop apic_mask 0 0
      in if 0 < bit_count then push_bit bit_count 1 else 1)"

text \<open>The geometry fields, each stored minus one and incremented on read. \<open>sets\<close> is
  \<open>r.ecx + 1\<close> in \<open>int\<close>: at \<open>ecx = 0x7FFFFFFF\<close> the addition wraps.\<close>

definition field_line_size :: "CPUIDResult \<Rightarrow> 32 word" where
  "field_line_size r = (ebx r AND 0xFFF) + 1"

definition field_partitions :: "CPUIDResult \<Rightarrow> 32 word" where
  "field_partitions r = (signed_drop_bit 12 (ebx r) AND 0x3FF) + 1"

definition field_ways :: "CPUIDResult \<Rightarrow> 32 word" where
  "field_ways r = (signed_drop_bit 22 (ebx r) AND 0x3FF) + 1"

definition field_sets :: "CPUIDResult \<Rightarrow> 32 word" where
  "field_sets r = ecx r + 1"

text \<open>\<open>size_bytes\<close> is a \<open>long long\<close> product of the four fields, each sign-extended;
  \<open>size_kb\<close> is its quotient by 1024 (C division truncates towards zero), cast to
  \<open>int\<close>, which keeps the low 32 bits.\<close>

definition size_bytes_of :: "CPUIDResult \<Rightarrow> 64 word" where
  "size_bytes_of r =
     scast (field_ways r) * scast (field_partitions r) * scast (field_line_size r) *
     scast (field_sets r)"

definition size_kb_of :: "CPUIDResult \<Rightarrow> 32 word" where
  "size_kb_of r = word_of_int (sint (size_bytes_of r) sdiv 1024)"

text \<open>The record a subleaf writes into its target.\<close>

definition decoded_info :: "CPUIDResult \<Rightarrow> CacheInfo" where
  "decoded_info r =
     \<lparr>size_kb = size_kb_of r, assoc = field_ways r, line_size = field_line_size r,
      partitions = field_partitions r, sets = field_sets r,
      cores_sharing = decode_cores_sharing (eax r),
      is_inclusive = signed_drop_bit 9 (eax r) AND 1\<rparr>"

text \<open>The specification's formula for the size in KB, on the stored fields read as
  \<open>int\<close>s, in exact integer arithmetic.\<close>

definition spec_size_kb :: "CacheInfo \<Rightarrow> int" where
  "spec_size_kb c =
     (sint (assoc c) * sint (partitions c) * sint (line_size c) * sint (sets c)) div 1024"

text \<open>The body of the subleaf loop after the type-0 test.\<close>

definition intel_subleaf :: "CPUIDResult \<Rightarrow> caches \<Rightarrow> caches" where
  "intel_subleaf r cs =
     (let cache_type = eax r AND 0x1F;
          level = signed_drop_bit 5 (eax r) AND 0x7
      in case select_target cache_type level of
           None \<Rightarrow> cs
         | Some target \<Rightarrow>
             if size_kb (get_level target cs) = 0
             then set_level target (decoded_info r) cs
             else cs)"

function intel_loop :: "cpuid_fn \<Rightarrow> nat \<Rightarrow> caches \<Rightarrow> caches" where
  "intel_loop hw n cs =
     (if n < 32 then
        let r = read_cpuid hw 4 (of_nat n)
        in if eax r AND 0x1F = 0 then cs
           else intel_loop hw (n + 1) (intel_subleaf r cs)
      else cs)"
  by pat_completeness auto
termination
  by (relation "measure (\<lambda>(hw, n, cs). 32 - n)") auto

declare intel_loop.simps [simp del]

definition detect_intel_caches :: "cpuid_fn \<Rightarrow> caches \<Rightarrow> caches" where
  "detect_intel_caches hw cs = intel_loop hw 0 cs"

definition amd_fill :: "32 word \<Rightarrow> CacheInfo \<Rightarrow> CacheInfo" where
  "amd_fill v c =
     (if 0 <s v then c\<lparr>size_kb := v, cores_sharing := - 1, is_inclusive := - 1\<rparr> else c)"

definition detect_amd_caches :: "cpuid_fn \<Rightarrow> caches \<Rightarrow> caches" where
  "detect_amd_caches hw cs =
     (let r5 = read_cpuid hw 0x80000005 0;
          r6 = read_cpuid hw 0x80000006 0;
          l1d_val = signed_drop_bit 24 (ecx r5) AND 0xFF;
          l1i_val = signed_drop_bit 24 (edx r5) AND 0xFF;
          l2_val = signed_drop_bit 16 (ecx r6) AND 0xFFFF;
          l3_chunks = signed_drop_bit 18 (edx r6) AND 0x3FFF;
          l3_val = l3_chunks * 512
      in cs\<lparr>l1d := amd_fill l1d_val (l1d cs), l1i := amd_fill l1i_val (l1i cs),
            l2 := amd_fill l2_val (l2 cs), l3 := amd_fill l3_val (l3 cs)\<rparr>)"

definition detect_caches :: "CpuVendor \<Rightarrow> cpuid_fn \<Rightarrow> caches" where
  "detect_caches vendor hw =
     (if vendor = VENDOR_INTEL then detect_intel_caches hw caches_zero
      else if vendor = VENDOR_AMD then detect_amd_caches hw caches_zero
      else caches_zero)"

section \<open>TopologyEnumerator\<close>

record PerCoreTopology =
  apic_id :: "32 word"
  core_type :: "32 word"
  core_index :: "32 word"
  logical_index :: "32 word"
  package_id :: "32 word"
  tile_id :: "32 word"
  die_id :: "32 word"
  module_id :: "32 word"

text \<open>
  The operating system as \<open>detect_apic_topology\<close> sees it. The first call of
  \<open>GetLogicalProcessorInformationEx\<close> stores \<open>lpi_buffer_size\<close>; \<open>malloc\<close> and the second
  call succeed or not; the buffer then holds \<open>lpi_infos\<close>, one entry per structure, with
  whether its \<open>Relationship\<close> is \<open>RelationProcessorCore\<close> and its group masks.
  \<open>process_affinity\<close> is the affinity mask of the process.
\<close>

record proc_info =
  is_processor_core :: bool
  group_masks :: "64 word list"

record os_env =
  lpi_buffer_size :: nat
  lpi_malloc_ok :: bool
  lpi_query_ok :: bool
  lpi_infos :: "proc_info list"
  process_affinity :: "64 word"

text \<open>
  \<open>SetThreadAffinityMask\<close> by its Win32 contract: the mask must be non-zero and a subset
  of the process affinity mask; on success the call returns the previous mask of the
  thread and installs the new one, on failure it returns 0 and changes nothing. The
  result is the return value paired with the thread's affinity afterwards.
\<close>

definition SetThreadAffinityMask :: "os_env \<Rightarrow> 64 word \<Rightarrow> 64 word \<Rightarrow> 64 word \<times> 64 word" where
  "SetThreadAffinityMask os new_mask affinity =
     (if new_mask \<noteq> 0 \<and> new_mask AND NOT (process_affinity os) = 0
      then (affinity, new_mask) else (0, affinity))"

text \<open>\<open>while (mask) { if (mask & 1) total_logical_processors++; mask >>= 1; }\<close>\<close>

function count_mask_bits :: "64 word \<Rightarrow> nat \<Rightarrow> nat" where
  "count_mask_bits m total_lp =
     (if m \<noteq> 0
      then count_mask_bits (drop_bit 1 m) (if m AND 1 \<noteq> 0 then total_lp + 1 else total_lp)
      else total_lp)"
  by pat_completeness auto
termination
proof (relation "measure (\<lambda>(m, total_lp). unat m)")
  show "wf (measure (\<lambda>(m :: 64 word, total_lp :: nat). unat m))"
    by simp
next
  fix m :: "64 word" and total_lp :: nat
  assume "m \<noteq> 0"
  then have "0 < unat m"
    by (simp add: unat_gt_0)
  then have "unat m div 2 < unat m"
    by simp
  then show "((drop_bit 1 m, if m AND 1 \<noteq> 0 then total_lp + 1 else total_lp), m, total_lp)
      \<in> measure (\<lambda>(m, total_lp). unat m)"
    by (simp add: drop_bit_eq_div unat_div)
qed

declare count_mask_bits.simps [simp del]

definition count_logical_processors :: "proc_info list \<Rightarrow> nat" where
  "count_logical_processors infos =
     fold (\<lambda>info total_lp.
             if is_processor_core info
             then fold count_mask_bits (group_masks info) total_lp
             else total_lp) infos 0"

text \<open>The subleaf loop that reads the shift widths: the triple is
  \<open>(smt_bits, core_bits, tile_bits)\<close>.\<close>

function level_loop ::
  "cpuid_fn \<Rightarrow> 32 word \<Rightarrow> nat \<Rightarrow> 32 word \<times> 32 word \<times> 32 word \<Rightarrow> 32 word \<times> 32 word \<times> 32 word" where
  "level_loop hw topo_leaf subleaf bits =
     (if subleaf < 8 then
        let r_sub = read_cpuid hw topo_leaf (of_nat subleaf);
            level_type = signed_drop_bit 8 (ecx r_sub) AND 0xFF;
            shift_bits = eax r_sub AND 0x1F
        in if level_type = 0 then bits
           else level_loop hw topo_leaf (subleaf + 1)
                  (case bits of (smt_bits, core_bits, tile_bits) \<Rightarrow>
                     if level_type = 1 then (shift_bits, core_bits, tile_bits)
                     else if level_type = 2 then (smt_bits, shift_bits, tile_bits)
                     else if level_type = 5 then (smt_bits, core_bits, shift_bits)
                     else bits)
      else bits)"
  by pat_completeness auto
termination
  by (relation "measure (\<lambda>(hw, topo_leaf, subleaf, bits). 8 - subleaf)") auto

declare level_loop.simps [simp del]

text \<open>The hybrid core type: the high byte of \<open>eax\<close> of leaf 0x1A, stored as it is.\<close>

definition read_core_type :: "cpuid_fn \<Rightarrow> 32 word \<Rightarrow> 32 word" where
  "read_core_type hw max_leaf =
     (if 0x1A \<le>s max_leaf
      then signed_drop_bit 24 (eax (read_cpuid hw 0x1A 0)) AND 0xFF
      else 0)"

text \<open>The record built for logical processor \<open>lp\<close> while the thread runs on it; \<open>hw\<close> is
  the instruction as that processor answers it.\<close>

definition topology_record :: "cpuid_fn \<Rightarrow> 32 word \<Rightarrow> 32 word \<Rightarrow> nat \<Rightarrow> PerCoreTopology" where
  "topology_record hw max_leaf topo_leaf lp =
     (let r = read_cpuid hw topo_leaf 0;
          apic = edx r
      in case level_loop hw topo_leaf 0 (0, 0, 0) of
           (smt_bits, core_bits, tile_bits) \<Rightarrow>
             let smt_mask = push_bit (unat smt_bits) 1 - 1;
                 core_mask = (push_bit (unat core_bits) 1 - 1) AND NOT smt_mask
             in \<lparr>apic_id = apic,
                 core_type = read_core_type hw max_leaf,
                 core_index = signed_drop_bit (unat smt_bits) (apic AND core_mask),
                 logical_index = of_nat lp,
                 package_id = signed_drop_bit (unat core_bits) apic,
                 tile_id = (if 0 <s tile_bits then signed_drop_bit (unat tile_bits) apic else 0),
                 die_id = 0,
                 module_id = 0\<rparr>)"

text \<open>
  The pinning loop. \<open>(DWORD_PTR)1 << lp\<close> is a 64-bit shift whose count the processor
  takes modulo 64; once pinned, the thread runs on the processor of that bit, and
  \<open>cpus\<close> gives the instruction as each processor answers it. \<open>Sleep\<close> has no effect on
  the values. The array \<open>topo_array\<close> with its fill count \<open>*num_cores\<close> is the list of
  the records written so far. The counters \<open>lp\<close>, \<open>*num_cores\<close> and
  \<open>total_logical_processors\<close> stay far below the range of \<open>int\<close> and are natural
  numbers here; the walk \<open>offset += info->Size\<close> through the buffer is the traversal
  of \<open>lpi_infos\<close>.
\<close>

function topo_loop ::
  "os_env \<Rightarrow> (nat \<Rightarrow> cpuid_fn) \<Rightarrow> 32 word \<Rightarrow> 32 word \<Rightarrow> nat \<Rightarrow> nat \<Rightarrow>
   PerCoreTopology list \<Rightarrow> 64 word \<Rightarrow> PerCoreTopology list \<times> 64 word" where
  "topo_loop os cpus max_leaf topo_leaf total_lp lp topo_array affinity =
     (if lp < total_lp \<and> length topo_array < 256 then
        let affinity_mask = push_bit (lp mod 64) 1;
            res = SetThreadAffinityMask os affinity_mask affinity
        in if fst res = 0
           then topo_loop os cpus max_leaf topo_leaf total_lp (lp + 1) topo_array (snd res)
           else topo_loop os cpus max_leaf topo_leaf total_lp (lp + 1)
                  (topo_array @ [topology_record (cpus (lp mod 64)) max_leaf topo_leaf lp])
                  (snd res)
      else (topo_array, affinity))"
  by pat_completeness auto
termination
  by (relation "measure (\<lambda>(os, cpus, max_leaf, topo_leaf, total_lp, lp, topo_array, affinity).
        total_lp - lp)") auto

declare topo_loop.simps [simp del]

text \<open>\<open>detect_apic_topology\<close>: the records (\<open>*num_cores\<close> is their number) and the
  affinity of the calling thread when the function returns. \<open>hw\<close> answers the query of
  leaf 0 made before any pinning.\<close>

definition detect_apic_topology ::
  "os_env \<Rightarrow> cpuid_fn \<Rightarrow> (nat \<Rightarrow> cpuid_fn) \<Rightarrow> 64 word \<Rightarrow> PerCoreTopology list \<times> 64 word" where
  "detect_apic_topology os hw cpus affinity =
     (let max_leaf = eax (read_cpuid hw 0 0);
          topo_leaf = (if 0x1F \<le>s max_leaf then 0x1F else 0xB)
      in if max_leaf <s 0xB then ([], affinity)
         else if lpi_buffer_size os = 0 then ([], affinity)
         else if \<not> lpi_malloc_ok os then ([], affinity)
         else if \<not> lpi_query_ok os then ([], affinity)
         else
           let total_logical_processors = count_logical_processors (lpi_infos os);
               saved = SetThreadAffinityMask os 1 affinity;
               original_affinity = fst saved;
               looped = topo_loop os cpus max_leaf topo_leaf total_logical_processors 0 []
                          (snd saved)
           in if original_affinity \<noteq> 0
              then (fst looped, snd (SetThreadAffinityMask os original_affinity (snd looped)))
              else looped)"

section \<open>CacheSharingGrouper\<close>

text \<open>The lambda \<open>calc_shift\<close>. Its loop runs on a value greater than 1, where \<open>>>= 1\<close>
  halves; the shift count stays below 31.\<close>

function shift_loop :: "int \<Rightarrow> nat \<Rightarrow> nat" where
  "shift_loop val shift = (if 1 < val then shift_loop (val div 2) (shift + 1) else shift)"
  by pat_completeness auto
termination
  by (relation "measure (\<lambda>(val, shift). nat val)") auto

declare shift_loop.simps [simp del]

definition calc_shift :: "32 word \<Rightarrow> nat" where
  "calc_shift cores_sharing_arg =
     (if cores_sharing_arg \<le>s 1 then 0 else shift_loop (sint cores_sharing_arg) 0)"

text \<open>A loop \<open>for (i = 0; i < n; i++) a[i] = f i\<close> over a block of \<open>int\<close>s.\<close>

definition fill_loop :: "(nat \<Rightarrow> 32 word) \<Rightarrow> nat \<Rightarrow> 32 word list \<Rightarrow> 32 word list" where
  "fill_loop f n block = fold (\<lambda>i a. a[i := f i]) [0..<n] block"

text \<open>
  \<open>derive_cache_sharing_groups\<close>. \<open>heap\<close> holds what the three \<open>malloc\<close> calls return:
  \<open>None\<close> for NULL, otherwise the fresh block of \<open>num_cores\<close> ints with whatever it
  contains. The result is the three pointers \<open>*l1d_groups\<close>, \<open>*l2_groups\<close>, \<open>*l3_groups\<close>
  as the function leaves them (they enter as NULL).
\<close>

type_synonym int_block = "32 word list option"

definition group_of :: "PerCoreTopology list \<Rightarrow> nat \<Rightarrow> nat \<Rightarrow> 32 word" where
  "group_of topo_array shift i = signed_drop_bit shift (apic_id (topo_array ! i))"

definition derive_cache_sharing_groups ::
  "PerCoreTopology list \<Rightarrow> CacheInfo \<Rightarrow> CacheInfo \<Rightarrow> CacheInfo \<Rightarrow>
   int_block \<times> int_block \<times> int_block \<Rightarrow> int_block \<times> int_block \<times> int_block" where
  "derive_cache_sharing_groups topo_array l1d_info l2_info l3_info heap =
     (let num_cores = length topo_array
      in if num_cores = 0 then (None, None, None)
         else case heap of
           (Some b1, Some b2, Some b3) \<Rightarrow>
             let i1 = fill_loop (\<lambda>i. - 1) num_cores b1;
                 i2 = fill_loop (\<lambda>i. - 1) num_cores b2;
                 i3 = fill_loop (\<lambda>i. - 1) num_cores b3;
                 l1d_shift = calc_shift (cores_sharing l1d_info);
                 l2_shift = calc_shift (cores_sharing l2_info);
                 l3_shift = calc_shift (cores_sharing l3_info)
             in (Some (fill_loop (group_of topo_array l1d_shift) num_cores i1),
                 Some (fill_loop (group_of topo_array l2_shift) num_cores i2),
                 Some (fill_loop (group_of topo_array l3_shift) num_cores i3))
         | _ \<Rightarrow> heap)"

text \<open>The counting loops of \<open>main\<close>: \<open>seen\<close> is the array \<open>int seen[256] = {0}\<close>.\<close>

definition count_step :: "32 word \<Rightarrow> 32 word list \<times> nat \<Rightarrow> 32 word list \<times> nat" where
  "count_step g st =
     (case st of (seen, unique) \<Rightarrow>
        if 0 \<le>s g \<and> g <s 256 \<and> seen ! unat g = 0
        then (seen[unat g := 1], unique + 1)
        else st)"

definition count_unique :: "32 word list \<Rightarrow> nat \<Rightarrow> nat" where
  "count_unique groups num_logical_cores =
     snd (fold (\<lambda>i. count_step (groups ! i)) [0..<num_logical_cores] (replicate 256 0, 0))"

text \<open>The triple \<open>(l1d_unique, l2_unique, l3_unique)\<close>.\<close>

definition count_instances :: "int_block \<times> int_block \<times> int_block \<Rightarrow> nat \<Rightarrow> nat \<times> nat \<times> nat" where
  "count_instances groups num_logical_cores =
     (case groups of
        (Some l1d_groups, Some l2_groups, Some l3_groups) \<Rightarrow>
          (count_unique l1d_groups num_logical_cores,
           count_unique l2_groups num_logical_cores,
           count_unique l3_groups num_logical_cores)
      | _ \<Rightarrow> (0, 0, 0))"

section \<open>The run\<close>

text \<open>\<open>get_turbo_ratios\<close>: \<open>None\<close> is the return value 0.\<close>

definition get_turbo_ratios :: "cpuid_fn \<Rightarrow> (32 word \<times> 32 word \<times> 32 word) option" where
  "get_turbo_ratios hw =
     (let max_leaf = get_max_cpuid_leaf hw
      in if max_leaf <s 0x16 then None
         else let result = read_cpuid hw 0x16 0
              in Some (eax result AND 0xFFFF, ebx result AND 0xFFFF, ecx result AND 0xFFFF))"

text \<open>
  What one run is given: the floating-point arithmetic of the machine, the
  identification instruction as the thread of \<open>main\<close> sees it and as each logical
  processor answers it once the thread is pinned there, the operating system, the
  thread's affinity at entry, the answer of the management layer and the blocks the
  three \<open>malloc\<close> calls of the grouper return.
\<close>

record 'd host =
  host_fpu :: "'d fpu"
  host_hw :: cpuid_fn
  host_cpus :: "nat \<Rightarrow> cpuid_fn"
  host_os :: os_env
  host_affinity :: "64 word"
  host_wmi_max :: "32 word"
  host_heap :: "int_block \<times> int_block \<times> int_block"

text \<open>One element of the array \<open>apic_ids\<close> and the JSON object \<open>main\<close> prints. The
  detail fields of a cache level are printed only when its \<open>size_kb\<close> is positive.\<close>

record apic_entry =
  entry_index :: "32 word"
  entry_apic :: "32 word"
  entry_core_type :: "32 word"
  entry_l1d_group :: "32 word"
  entry_l2_group :: "32 word"
  entry_l3_group :: "32 word"

record report =
  json_base_mhz :: "32 word"
  json_max_mhz :: "32 word"
  json_bus_mhz :: "32 word"
  json_turbo_supported :: "32 word"
  json_cpuid_turbo :: "(32 word \<times> 32 word \<times> 32 word) option"
  json_brand :: string
  json_caches :: caches
  json_max_cpuid_leaf :: "32 word"
  json_num_logical_cores :: nat
  json_apic_ids :: "apic_entry list"
  json_l1d_instances :: nat
  json_l2_instances :: nat
  json_l3_instances :: nat
  json_success :: "32 word"

text \<open>\<open>l1d_groups ? l1d_groups[i] : -1\<close>\<close>

definition group_at :: "int_block \<Rightarrow> nat \<Rightarrow> 32 word" where
  "group_at block i = (case block of None \<Rightarrow> - 1 | Some groups \<Rightarrow> groups ! i)"

definition main :: "'d host \<Rightarrow> report" where
  "main h =
     (let hw = host_hw h;
          brand = get_brand_string hw;
          vendor = get_cpu_vendor hw;
          max_leaf = get_max_cpuid_leaf hw;
          fv = resolve_frequency (host_fpu h) hw (host_wmi_max h);
          cs = detect_caches vendor hw;
          topo_array = fst (detect_apic_topology (host_os h) hw (host_cpus h) (host_affinity h));
          num_logical_cores = length topo_array;
          groups = derive_cache_sharing_groups topo_array (l1d cs) (l2 cs) (l3 cs) (host_heap h);
          uniq = count_instances groups num_logical_cores
      in \<lparr>json_base_mhz = base_mhz fv,
          json_max_mhz = max_mhz fv,
          json_bus_mhz = bus_mhz fv,
          json_turbo_supported = turbo_flag hw max_leaf,
          json_cpuid_turbo = get_turbo_ratios hw,
          json_brand = c_str brand,
          json_caches = cs,
          json_max_cpuid_leaf = max_leaf,
          json_num_logical_cores = num_logical_cores,
          json_apic_ids =
            map (\<lambda>i. \<lparr>entry_index = logical_index (topo_array ! i),
                        entry_apic = apic_id (topo_array ! i),
                        entry_core_type = core_type (topo_array ! i),
                        entry_l1d_group = group_at (fst groups) i,
                        entry_l2_group = group_at (fst (snd groups)) i,
                        entry_l3_group = group_at (snd (snd groups)) i\<rparr>)
                [0..<num_logical_cores],
          json_l1d_instances = fst uniq,
          json_l2_instances = fst (snd uniq),
          json_l3_instances = snd (snd uniq),
          json_success = success fv\<rparr>)"

section \<open>Auxiliary notions for the proofs\<close>

text \<open>A group id the counting loops accept indexes \<open>seen\<close> within its 256 entries.\<close>

definition in_range :: "32 word \<Rightarrow> bool" where
  "in_range g = (0 \<le>s g \<and> g <s 256)"

text \<open>The state of a counting loop after some group ids: \<open>seen\<close> marks exactly the
  accepted ids met so far (the set \<open>P\<close>) and \<open>unique\<close> is their number.\<close>

definition counted :: "32 word set \<Rightarrow> 32 word list \<times> nat \<Rightarrow> bool" where
  "counted P st =
     (length (fst st) = 256 \<and> finite P \<and> (\<forall>g. g \<in> P \<longrightarrow> in_range g) \<and>
      (\<forall>g. in_range g \<longrightarrow> (fst st ! unat g \<noteq> 0) = (g \<in> P)) \<and> snd st = card P)"

text \<open>An affinity mask the operating system accepts for a thread of the process.\<close>

definition valid_affinity :: "os_env \<Rightarrow> 64 word \<Rightarrow> bool" where
  "valid_affinity os affinity = (affinity \<noteq> 0 \<and> affinity AND NOT (process_affinity os) = 0)"

section \<open>Concrete inputs\<close>

text \<open>Hosts on which the theorems below are evaluated.\<close>

definition zero_result :: CPUIDResult where
  "zero_result = \<lparr>eax = 0, ebx = 0, ecx = 0, edx = 0\<rparr>"

text \<open>An operating system whose core-relationship query reports nothing, and a host
  around a given instruction: arithmetic without rounding, no management-layer answer,
  no topology.\<close>

definition os_none :: os_env where
  "os_none = \<lparr>lpi_buffer_size = 0, lpi_malloc_ok = True, lpi_query_ok = True,
               lpi_infos = [], process_affinity = 1\<rparr>"

definition host_of :: "cpuid_fn \<Rightarrow> real host" where
  "host_of hw = \<lparr>host_fpu = exact_fpu, host_hw = hw, host_cpus = (\<lambda>lp. hw),
                  host_os = os_none, host_affinity = 1, host_wmi_max = 0,
                  host_heap = (None, None, None)\<rparr>"

text \<open>Leaf 0x16 reports a base clock of 3000 MHz and a bus clock of 100 MHz but no
  maximum clock; no other source of a frequency exists.\<close>

definition hw_partial16 :: cpuid_fn where
  "hw_partial16 leaf subleaf =
     (if leaf = 0 then zero_result\<lparr>eax := 0x16\<rparr>
      else if leaf = 0x16 then zero_result\<lparr>eax := 3000, ecx := 100\<rparr>
      else zero_result)"


text \<open>A data-cache subleaf of level 1 whose fields are all in range: 1024 ways,
  1024 partitions, lines of 4096 bytes and 1024 sets.\<close>

definition r_huge :: CPUIDResult where
  "r_huge = \<lparr>eax = 0x121, ebx = 0xFFFFFFFF, ecx = 1023, edx = 0\<rparr>"

text \<open>A level-1 data cache of 8 ways, 1 partition, 64-byte lines and 64 sets (32 KB).\<close>

definition r_l1d_32k :: CPUIDResult where
  "r_l1d_32k = \<lparr>eax = 0x121, ebx = 0x01C0003F, ecx = 63, edx = 0\<rparr>"

text \<open>A level-1 data cache of one way, one partition, one-byte lines and one set: one
  byte in all, which is 0 KB.\<close>

definition r_tiny :: CPUIDResult where
  "r_tiny = \<lparr>eax = 0x121, ebx = 0, ecx = 0, edx = 0\<rparr>"

text \<open>Leaf 4 reports the level-1 data cache twice, first as \<open>r_tiny\<close>, then as
  \<open>r_l1d_32k\<close>, and ends.\<close>

definition hw_dup_l1d :: cpuid_fn where
  "hw_dup_l1d leaf subleaf =
     (if leaf = 4 \<and> subleaf = 0 then r_tiny
      else if leaf = 4 \<and> subleaf = 1 then r_l1d_32k
      else zero_result)"

text \<open>A processor of an unrecognised vendor (the vendor words of leaf 0 are zero) whose
  highest leaf is 0xB and whose topology leaf reports the hardware identifier \<open>apic\<close>
  and no level.\<close>

definition hw_plain :: "32 word \<Rightarrow> cpuid_fn" where
  "hw_plain apic leaf subleaf =
     (if leaf = 0 then zero_result\<lparr>eax := 0xB\<rparr>
      else if leaf = 0xB then zero_result\<lparr>edx := apic\<rparr>
      else zero_result)"

text \<open>One core with two logical processors, both open to the process, whose hardware
  identifiers are 0 and 1; every \<open>malloc\<close> succeeds.\<close>

definition os_two :: os_env where
  "os_two = \<lparr>lpi_buffer_size = 48, lpi_malloc_ok = True, lpi_query_ok = True,
              lpi_infos = [\<lparr>is_processor_core = True, group_masks = [3]\<rparr>],
              process_affinity = 3\<rparr>"

definition host_two :: "real host" where
  "host_two = \<lparr>host_fpu = exact_fpu, host_hw = hw_plain 0,
                host_cpus = (\<lambda>lp. hw_plain (of_nat lp)),
                host_os = os_two, host_affinity = 3, host_wmi_max = 0,
                host_heap = (Some [0, 0], Some [0, 0], Some [0, 0])\<rparr>"

text \<open>A unified level-3 cache of 12 ways, 64-byte lines and 16384 sets (12288 KB) whose
  sharing-width field is 7.\<close>

definition r_l3_shared8 :: CPUIDResult where
  "r_l3_shared8 = \<lparr>eax = 0x1C063, ebx = 0x02C0003F, ecx = 0x3FFF, edx = 0\<rparr>"

text \<open>Three single-threaded cores of which the process may use only the second and the
  third: processor 0 is outside the process affinity mask \<open>0b110\<close>.\<close>

definition os_no_cpu0 :: os_env where
  "os_no_cpu0 = \<lparr>lpi_buffer_size = 144, lpi_malloc_ok = True, lpi_query_ok = True,
                  lpi_infos = [\<lparr>is_processor_core = True, group_masks = [1]\<rparr>,
                               \<lparr>is_processor_core = True, group_masks = [2]\<rparr>,
                               \<lparr>is_processor_core = True, group_masks = [4]\<rparr>],
                  process_affinity = 6\<rparr>"

text \<open>A hybrid processor: highest leaf 0x1A, whose \<open>eax\<close> carries the core type in its
  high byte (\<open>0x40\<close> on a performance core, \<open>0x20\<close> on an efficiency core).\<close>

definition hw_hybrid :: "32 word \<Rightarrow> cpuid_fn" where
  "hw_hybrid type_byte leaf subleaf =
     (if leaf = 0 then zero_result\<lparr>eax := 0x1A\<rparr>
      else if leaf = 0x1A then zero_result\<lparr>eax := push_bit 24 type_byte\<rparr>
      else zero_result)"

text \<open>As \<open>hw_dup_l1d\<close> up to the terminating subleaf 2, with one more cache reported at
  subleaf 3, behind the terminator.\<close>

definition hw_dup_l1d_more :: cpuid_fn where
  "hw_dup_l1d_more leaf subleaf =
     (if leaf = 4 \<and> subleaf = 3 then r_l3_shared8 else hw_dup_l1d leaf subleaf)"

text \<open>Sixteen enumerated processors with the hardware identifiers 0 to 15.\<close>

definition topo16 :: "PerCoreTopology list" where
  "topo16 = map (\<lambda>n. \<lparr>apic_id = of_nat n, core_type = 0, core_index = 0,
                        logical_index = of_nat n, package_id = 0, tile_id = 0, die_id = 0,
                        module_id = 0\<rparr>) [0..<16]"

text \<open>A processor of the vendor "GenuineIntel" whose highest leaf is 0xB, whose leaf 4
  reports the single cache \<open>r_l3_shared8\<close> and whose topology leaf reports the hardware
  identifier \<open>apic\<close> and no level; and a host with two such logical processors,
  identifiers 0 and 1.\<close>

definition hw_intel_l3 :: "32 word \<Rightarrow> cpuid_fn" where
  "hw_intel_l3 apic leaf subleaf =
     (if leaf = 0 then \<lparr>eax = 0xB, ebx = 0x756E6547, ecx = 0x6C65746E, edx = 0x49656E69\<rparr>
      else if leaf = 4 \<and> subleaf = 0 then r_l3_shared8
      else if leaf = 0xB then zero_result\<lparr>edx := apic\<rparr>
      else zero_result)"

definition host_intel_two :: "real host" where
  "host_intel_two = \<lparr>host_fpu = exact_fpu, host_hw = hw_intel_l3 0,
                      host_cpus = (\<lambda>lp. hw_intel_l3 (of_nat lp)),
                      host_os = os_two, host_affinity = 3, host_wmi_max = 0,
                      host_heap = (Some [0, 0], Some [0, 0], Some [0, 0])\<rparr>"

section \<open>Properties of the brand-string parser\<close>

lemma strstr_None_iff: "strstr haystack needle = None \<longleftrightarrow> \<not> sublist needle haystack"
  by (induction haystack) (auto simp: sublist_Cons_right)

lemma sublist_upper_prefix:
  assumes "sublist needle (map to_upper (take n (c_str brand)))"
  shows "sublist needle (map to_upper brand)"
proof -
  have "prefix (take n (c_str brand)) brand"
    unfolding c_str_def
    by (metis prefix_order.order_trans take_is_prefix takeWhile_is_prefix)
  then have "prefix (map to_upper (take n (c_str brand))) (map to_upper brand)"
    by (rule map_mono_prefix)
  then have "sublist (map to_upper (take n (c_str brand))) (map to_upper brand)"
    by (rule prefix_imp_sublist)
  with assms show ?thesis
    by (rule sublist_order.order_trans)
qed

lemma parse_no_token:
  assumes "\<not> sublist ''GHZ'' (map to_upper brand)" and "\<not> sublist ''MHZ'' (map to_upper brand)"
  shows "parse_frequency_from_brand fp brand = None"
proof -
  have "\<not> sublist ''GHZ'' (map to_upper (take 127 (c_str brand)))"
    using assms(1) sublist_upper_prefix by blast
  then have g: "strstr (map to_upper (take 127 (c_str brand))) ''GHZ'' = None"
    by (rule iffD2 [OF strstr_None_iff])
  have "\<not> sublist ''MHZ'' (map to_upper (take 127 (c_str brand)))"
    using assms(2) sublist_upper_prefix by blast
  then have m: "strstr (map to_upper (take 127 (c_str brand))) ''MHZ'' = None"
    by (rule iffD2 [OF strstr_None_iff])
  show ?thesis
    unfolding parse_frequency_from_brand_def Let_def g m by simp
qed

text \<open>The definitions a run of the parser on a literal unfolds.\<close>

lemmas parse_eval = parse_frequency_from_brand_def c_str_def to_upper_def char_of_def
  digit_or_dot_def is_digit_def atof_def dec_value_def double_to_int_def exact_fpu_def Let_def
  bit_Suc_0_iff

text \<open>
  Claim C5. \<open>parse_frequency_from_brand\<close> returns 3600 for "Intel(R) Core(TM) i7 @ 3.60GHz"
  and 2400 for "Some CPU 2400MHz" (in the arithmetic without rounding; the doubles of
  the machine give the same two integers), and, whatever the arithmetic, reports failure
  for every input in which neither GHZ nor MHZ occurs in any mix of upper and lower case
  (after upper-casing, neither token is a substring).
\<close>

theorem brand_parsing:
  "parse_frequency_from_brand exact_fpu ''Intel(R) Core(TM) i7 @ 3.60GHz'' = Some 3600 \<and>
   parse_frequency_from_brand exact_fpu ''Some CPU 2400MHz'' = Some 2400 \<and>
   (\<forall>(fp :: 'd fpu) brand.
      \<not> sublist ''GHZ'' (map to_upper brand) \<and> \<not> sublist ''MHZ'' (map to_upper brand)
        \<longrightarrow> parse_frequency_from_brand fp brand = None)"
proof (intro conjI allI impI)
  show "parse_frequency_from_brand exact_fpu ''Intel(R) Core(TM) i7 @ 3.60GHz'' = Some 3600"
    by (simp add: parse_eval)
  show "parse_frequency_from_brand exact_fpu ''Some CPU 2400MHz'' = Some 2400"
    by (simp add: parse_eval)
next
  fix fp :: "'d fpu" and brand
  assume "\<not> sublist ''GHZ'' (map to_upper brand) \<and> \<not> sublist ''MHZ'' (map to_upper brand)"
  then show "parse_frequency_from_brand fp brand = None"
    by (simp add: parse_no_token)
qed

theorem brand_parsing_witness:
  "\<not> sublist ''GHZ'' (map to_upper ''Some cpu'') \<and> \<not> sublist ''MHZ'' (map to_upper ''Some cpu'') \<and>
   parse_frequency_from_brand exact_fpu ''Some cpu'' = None"
proof -
  have a: "\<not> sublist ''GHZ'' (map to_upper ''Some cpu'')"
    by (simp add: to_upper_def char_of_def bit_Suc_0_iff sublist_Cons_right)
  have b: "\<not> sublist ''MHZ'' (map to_upper ''Some cpu'')"
    by (simp add: to_upper_def char_of_def bit_Suc_0_iff sublist_Cons_right)
  from a b brand_parsing [where ?'d = real] show ?thesis
    by blast
qed

section \<open>Properties of the frequency fallback chain\<close>

text \<open>A value masked to a non-negative constant is non-negative as an \<open>int\<close>.\<close>

lemma sint_of_small: "uint (w :: 32 word) < 2 ^ 31 \<Longrightarrow> sint w = uint w"
proof -
  assume a: "uint w < 2 ^ 31"
  have "(- (2 ^ 31) :: int) \<le> 0"
    by simp
  also have "0 \<le> uint w"
    by simp
  finally have "- (2 ^ 31) \<le> uint w" .
  with a have "signed_take_bit 31 (uint w) = uint w"
    by (intro signed_take_bit_int_eq_self) auto
  then show ?thesis
    by (simp add: sint_uint)
qed

lemma uint_and_le: "uint (x AND m :: 32 word) \<le> uint m"
  using word_and_le1 [of x m] by (simp add: word_le_def)

lemma sint_and_mask:
  assumes "uint (m :: 32 word) < 2 ^ 31"
  shows "sint (x AND m) = uint (x AND m)"
  using uint_and_le [of x m] assms by (intro sint_of_small) linarith

lemma low16_positive: "0 <s (x AND 0xFFFF :: 32 word) \<longleftrightarrow> x AND 0xFFFF \<noteq> 0"
proof -
  have "sint (x AND 0xFFFF) = uint (x AND 0xFFFF)"
    by (rule sint_and_mask) simp
  then show ?thesis
    by (simp add: word_sless_alt word_neq_0_conv word_less_def)
qed

text \<open>The printed frequency fields are the final values of the locals.\<close>

lemma main_success:
  "json_success (main h) = success (resolve_frequency (host_fpu h) (host_hw h) (host_wmi_max h))"
  by (simp add: main_def Let_def)

lemma main_base:
  "json_base_mhz (main h) = base_mhz (resolve_frequency (host_fpu h) (host_hw h) (host_wmi_max h))"
  by (simp add: main_def Let_def)

lemma main_max:
  "json_max_mhz (main h) = max_mhz (resolve_frequency (host_fpu h) (host_hw h) (host_wmi_max h))"
  by (simp add: main_def Let_def)

lemma main_bus:
  "json_bus_mhz (main h) = bus_mhz (resolve_frequency (host_fpu h) (host_hw h) (host_wmi_max h))"
  by (simp add: main_def Let_def)

lemmas freq_eval = resolve_frequency_def stage_leaf16_def stage_leaf15_def stage_brand_def
  stage_wmi_def stage_final_def leaf16_attempted_def leaf15_attempted_def brand_attempted_def
  wmi_attempted_def freq_init_def get_max_cpuid_leaf_def get_brand_string_def read_cpuid_def
  zero_result_def double_to_int_def crystal_mhz_of_def derived_base_of_def exact_fpu_def
  Let_def

lemma resolve_partial16:
  "resolve_frequency exact_fpu hw_partial16 0 =
     \<lparr>base_mhz = 3000, max_mhz = 0, bus_mhz = 100, success = 0\<rparr>"
  by (simp add: freq_eval hw_partial16_def parse_eval word_sle_eq word_sless_alt)


text \<open>What each stage did when \<open>success\<close> is still 0 after it.\<close>

lemma stage_final_id: "stage_final max_leaf s = s"
  by (cases s) (simp add: stage_final_def)

lemma stage_wmi_fail:
  assumes "success (stage_wmi wmi_max s) = 0"
  shows "stage_wmi wmi_max s = s \<and> (max_mhz s = 0 \<longrightarrow> \<not> 0 <s wmi_max)"
  using assms by (auto simp: stage_wmi_def wmi_attempted_def Let_def split: if_splits)

lemma stage_brand_fail:
  assumes "success (stage_brand fp brand s) = 0"
  shows "stage_brand fp brand s = s \<and>
         (\<forall>v. parse_frequency_from_brand fp brand = Some v \<longrightarrow> \<not> 0 <s v)"
  using assms
  by (auto simp: stage_brand_def brand_attempted_def Let_def split: if_splits option.splits)

lemma stage_leaf15_fail:
  assumes "success (stage_leaf15 fp hw max_leaf s) = 0"
  shows "success s = 0 \<and> base_mhz (stage_leaf15 fp hw max_leaf s) = base_mhz s \<and>
         max_mhz (stage_leaf15 fp hw max_leaf s) = max_mhz s"
  using assms by (auto simp: stage_leaf15_def Let_def split: if_splits)

text \<open>The leaf-0x15 block has a crystal clock to work from when the leaf is supported
  and its three words are positive.\<close>

lemma stage_leaf15_fail_bus:
  assumes "success (stage_leaf15 fp hw max_leaf s) = 0"
  shows "bus_mhz (stage_leaf15 fp hw max_leaf s) =
           (if bus_mhz s = 0 \<and> 0x15 \<le>s max_leaf \<and> 0 <s eax (read_cpuid hw 0x15 0) \<and>
               0 <s ebx (read_cpuid hw 0x15 0) \<and> 0 <s ecx (read_cpuid hw 0x15 0)
            then fp_to_int fp (fp_add fp (crystal_mhz_of fp (read_cpuid hw 0x15 0))
                                 (fp_lit fp (1 / 2)))
            else bus_mhz s) \<and>
         \<not> (0x15 \<le>s max_leaf \<and> 0 <s eax (read_cpuid hw 0x15 0) \<and>
            0 <s ebx (read_cpuid hw 0x15 0) \<and> 0 <s ecx (read_cpuid hw 0x15 0) \<and>
            base_mhz s = 0 \<and>
            fp_lt fp (fp_lit fp 0) (derived_base_of fp (read_cpuid hw 0x15 0)))"
  using assms
  by (auto simp: stage_leaf15_def leaf15_attempted_def Let_def split: if_splits)

text \<open>What the leaf-0x16 block leaves in the three fields.\<close>

lemma stage_leaf16_fields:
  "base_mhz (stage_leaf16 hw max_leaf freq_init) =
     (if 0x16 \<le>s max_leaf then eax (read_cpuid hw 0x16 0) AND 0xFFFF else 0)"
  "max_mhz (stage_leaf16 hw max_leaf freq_init) =
     (if 0x16 \<le>s max_leaf then ebx (read_cpuid hw 0x16 0) AND 0xFFFF else 0)"
  "bus_mhz (stage_leaf16 hw max_leaf freq_init) =
     (if 0x16 \<le>s max_leaf then ecx (read_cpuid hw 0x16 0) AND 0xFFFF else 0)"
  by (simp_all add: stage_leaf16_def leaf16_attempted_def freq_init_def Let_def)

lemma stage_leaf16_fail:
  assumes "success (stage_leaf16 hw max_leaf freq_init) = 0"
  shows "base_mhz (stage_leaf16 hw max_leaf freq_init) = 0 \<or>
         max_mhz (stage_leaf16 hw max_leaf freq_init) = 0"
  using assms
  by (auto simp: stage_leaf16_def freq_init_def Let_def low16_positive split: if_splits)

text \<open>
  Claim C1, as stated, fails: on a host whose leaf 0x16 reports a base and a bus clock but
  no maximum clock, and where nothing else yields a frequency, the run prints
  \<open>success = 0\<close> together with \<open>base_mhz = 3000\<close> and \<open>bus_mhz = 100\<close>.
\<close>

theorem success_zero_fields_not_zero:
  "\<not> (\<forall>h :: real host. json_success (main h) = 0 \<longrightarrow>
          json_base_mhz (main h) = 0 \<and> json_max_mhz (main h) = 0 \<and> json_bus_mhz (main h) = 0)"
proof
  assume "\<forall>h :: real host. json_success (main h) = 0 \<longrightarrow>
          json_base_mhz (main h) = 0 \<and> json_max_mhz (main h) = 0 \<and> json_bus_mhz (main h) = 0"
  moreover have "json_success (main (host_of hw_partial16)) = 0"
    by (simp add: main_success host_of_def resolve_partial16)
  ultimately have "json_bus_mhz (main (host_of hw_partial16)) = 0"
    by blast
  then show False
    by (simp add: main_bus host_of_def resolve_partial16)
qed

text \<open>What the run prints when \<open>success\<close> is 0.\<close>

lemma success_zero_fields:
  assumes "json_success (main h) = 0"
  shows "(let fp = host_fpu h; hw = host_hw h; max_leaf = get_max_cpuid_leaf hw;
              r16 = read_cpuid hw 0x16 0; r15 = read_cpuid hw 0x15 0;
              base16 = (if 0x16 \<le>s max_leaf then eax r16 AND 0xFFFF else 0);
              max16 = (if 0x16 \<le>s max_leaf then ebx r16 AND 0xFFFF else 0);
              bus16 = (if 0x16 \<le>s max_leaf then ecx r16 AND 0xFFFF else 0);
              crystal = (0x15 \<le>s max_leaf \<and> 0 <s eax r15 \<and> 0 <s ebx r15 \<and> 0 <s ecx r15)
          in json_base_mhz (main h) = base16 \<and>
             json_max_mhz (main h) = max16 \<and>
             json_bus_mhz (main h) =
               (if bus16 = 0 \<and> crystal
                then fp_to_int fp (fp_add fp (crystal_mhz_of fp r15) (fp_lit fp (1 / 2)))
                else bus16) \<and>
             (base16 = 0 \<or> max16 = 0) \<and>
             \<not> (crystal \<and> base16 = 0 \<and> fp_lt fp (fp_lit fp 0) (derived_base_of fp r15)) \<and>
             (\<forall>v. parse_frequency_from_brand fp (get_brand_string hw) = Some v
                  \<longrightarrow> \<not> 0 <s v) \<and>
             (max16 = 0 \<longrightarrow> \<not> 0 <s host_wmi_max h))"
proof -
  define fp where "fp = host_fpu h"
  define hw where "hw = host_hw h"
  define ml where "ml = get_max_cpuid_leaf hw"
  define s16 where "s16 = stage_leaf16 hw ml freq_init"
  define s15 where "s15 = stage_leaf15 fp hw ml s16"
  define sb where "sb = stage_brand fp (get_brand_string hw) s15"
  define sw where "sw = stage_wmi (host_wmi_max h) sb"
  have res: "resolve_frequency fp hw (host_wmi_max h) = sw"
    by (simp add: resolve_frequency_def Let_def stage_final_id sw_def sb_def s15_def s16_def ml_def)
  have out: "json_base_mhz (main h) = base_mhz sw" "json_max_mhz (main h) = max_mhz sw"
    "json_bus_mhz (main h) = bus_mhz sw"
    by (simp_all add: main_base main_max main_bus res [unfolded hw_def fp_def])
  from assms have "success sw = 0"
    by (simp add: main_success res [unfolded hw_def fp_def])
  then have w: "sw = sb" "max_mhz sb = 0 \<longrightarrow> \<not> 0 <s host_wmi_max h" and "success sb = 0"
    using stage_wmi_fail [of "host_wmi_max h" sb] by (simp_all add: sw_def)
  then have b: "sb = s15"
      "\<forall>v. parse_frequency_from_brand fp (get_brand_string hw) = Some v \<longrightarrow> \<not> 0 <s v"
    and s15_0: "success s15 = 0"
    using stage_brand_fail [of fp "get_brand_string hw" s15] by (simp_all add: sb_def)
  then have f: "base_mhz s15 = base_mhz s16" "max_mhz s15 = max_mhz s16" and "success s16 = 0"
    using stage_leaf15_fail [of fp hw ml s16] by (simp_all add: s15_def)
  then have z: "base_mhz s16 = 0 \<or> max_mhz s16 = 0"
    using stage_leaf16_fail [of hw ml] by (simp add: s16_def)
  note c = stage_leaf15_fail_bus [of fp hw ml s16, folded s15_def, OF s15_0]
  note v = stage_leaf16_fields [of hw ml, folded s16_def]
  have final: "base_mhz sw = base_mhz s16" "max_mhz sw = max_mhz s16" "bus_mhz sw = bus_mhz s15"
    using w(1) b(1) f by simp_all
  show ?thesis
    unfolding Let_def out final fp_def [symmetric] hw_def [symmetric] ml_def [symmetric]
    using z c b(2) w(2) [unfolded b(1) f(2)] unfolding v
    by (simp split: if_splits)
qed

text \<open>When each stage sets \<open>success\<close>.\<close>

lemma stage_leaf16_success:
  "success (stage_leaf16 hw max_leaf freq_init) =
     (if 0x16 \<le>s max_leaf \<and> eax (read_cpuid hw 0x16 0) AND 0xFFFF \<noteq> 0 \<and>
         ebx (read_cpuid hw 0x16 0) AND 0xFFFF \<noteq> 0 then 1 else 0)"
  by (simp add: stage_leaf16_def leaf16_attempted_def freq_init_def Let_def low16_positive)

lemma stage_leaf15_success:
  "success (stage_leaf15 fp hw max_leaf s) =
     (if 0x15 \<le>s max_leaf \<and> 0 <s eax (read_cpuid hw 0x15 0) \<and>
         0 <s ebx (read_cpuid hw 0x15 0) \<and> 0 <s ecx (read_cpuid hw 0x15 0) \<and>
         base_mhz s = 0 \<and> fp_lt fp (fp_lit fp 0) (derived_base_of fp (read_cpuid hw 0x15 0))
      then 1 else success s)"
  by (simp add: stage_leaf15_def leaf15_attempted_def Let_def)

lemma stage_brand_success:
  "success (stage_brand fp brand s) =
     (if brand_attempted s \<and> (\<exists>v. parse_frequency_from_brand fp brand = Some v \<and> 0 <s v)
      then 1 else success s)"
  by (simp add: stage_brand_def Let_def split: option.splits)

lemma stage_wmi_success:
  "success (stage_wmi wmi_max s) = (if max_mhz s = 0 \<and> 0 <s wmi_max then 1 else success s)"
  by (simp add: stage_wmi_def wmi_attempted_def Let_def)

lemma no_strategy_success_zero:
  assumes nz: "\<not> (0x16 \<le>s max_leaf \<and> eax (read_cpuid hw 0x16 0) AND 0xFFFF \<noteq> 0 \<and>
                 ebx (read_cpuid hw 0x16 0) AND 0xFFFF \<noteq> 0)"
    and nd: "\<not> (0x15 \<le>s max_leaf \<and> 0 <s eax (read_cpuid hw 0x15 0) \<and>
               0 <s ebx (read_cpuid hw 0x15 0) \<and> 0 <s ecx (read_cpuid hw 0x15 0) \<and>
               (if 0x16 \<le>s max_leaf then eax (read_cpuid hw 0x16 0) AND 0xFFFF else 0) = 0 \<and>
               fp_lt fp (fp_lit fp 0) (derived_base_of fp (read_cpuid hw 0x15 0)))"
    and nb: "\<forall>v. parse_frequency_from_brand fp brand = Some v \<longrightarrow> \<not> 0 <s v"
    and nw: "(if 0x16 \<le>s max_leaf then ebx (read_cpuid hw 0x16 0) AND 0xFFFF else 0) = 0
               \<longrightarrow> \<not> 0 <s wmi_max"
  shows "success (stage_final max_leaf (stage_wmi wmi_max (stage_brand fp brand
           (stage_leaf15 fp hw max_leaf (stage_leaf16 hw max_leaf freq_init))))) = 0"
proof -
  define s16 where "s16 = stage_leaf16 hw max_leaf freq_init"
  define s15 where "s15 = stage_leaf15 fp hw max_leaf s16"
  define sb where "sb = stage_brand fp brand s15"
  note v = stage_leaf16_fields [of hw max_leaf, folded s16_def]
  have a: "success s16 = 0"
    using nz by (simp add: s16_def stage_leaf16_success)
  have b: "success s15 = 0"
    using nd a by (simp add: s15_def stage_leaf15_success v)
  then have m15: "max_mhz s15 = max_mhz s16"
    using stage_leaf15_fail [of fp hw max_leaf s16] by (simp add: s15_def)
  have c: "success sb = 0"
    using nb b by (simp add: sb_def stage_brand_success)
  then have "sb = s15"
    using stage_brand_fail [of fp brand s15] by (simp add: sb_def)
  then have "success (stage_wmi wmi_max sb) = 0"
    using nw c m15 by (simp add: stage_wmi_success v)
  then show ?thesis
    by (simp add: stage_final_id sb_def s15_def s16_def)
qed

text \<open>
  Claim C1, amended. Whatever the arithmetic of the machine, the printed \<open>success\<close> is
  0 exactly when no strategy produced a value: leaf 0x16 did not give both a base and a
  maximum clock, leaf 0x15 derived no base clock, the brand string gave no positive
  value, and the management layer gave no positive value when the maximum clock is
  still 0. No field is reset then: \<open>base_mhz\<close>, \<open>max_mhz\<close> and \<open>bus_mhz\<close> are the low
  16 bits of the three words of leaf 0x16 (0 when that leaf is unsupported), except that
  a \<open>bus_mhz\<close> of 0 is replaced by the rounded crystal clock when leaf 0x15 gives one.
\<close>

theorem success_zero_no_strategy:
  "(let fp = host_fpu h; hw = host_hw h; max_leaf = get_max_cpuid_leaf hw;
        r16 = read_cpuid hw 0x16 0; r15 = read_cpuid hw 0x15 0;
        base16 = (if 0x16 \<le>s max_leaf then eax r16 AND 0xFFFF else 0);
        max16 = (if 0x16 \<le>s max_leaf then ebx r16 AND 0xFFFF else 0);
        bus16 = (if 0x16 \<le>s max_leaf then ecx r16 AND 0xFFFF else 0);
        crystal = (0x15 \<le>s max_leaf \<and> 0 <s eax r15 \<and> 0 <s ebx r15 \<and> 0 <s ecx r15)
    in (json_success (main h) = 0 \<longleftrightarrow>
          (base16 = 0 \<or> max16 = 0) \<and>
          \<not> (crystal \<and> base16 = 0 \<and> fp_lt fp (fp_lit fp 0) (derived_base_of fp r15)) \<and>
          (\<forall>v. parse_frequency_from_brand fp (get_brand_string hw) = Some v
               \<longrightarrow> \<not> 0 <s v) \<and>
          (max16 = 0 \<longrightarrow> \<not> 0 <s host_wmi_max h)) \<and>
       (json_success (main h) = 0 \<longrightarrow>
          json_base_mhz (main h) = base16 \<and>
          json_max_mhz (main h) = max16 \<and>
          json_bus_mhz (main h) =
            (if bus16 = 0 \<and> crystal
             then fp_to_int fp (fp_add fp (crystal_mhz_of fp r15) (fp_lit fp (1 / 2)))
             else bus16)))"
proof -
  have fwd: ?thesis if "json_success (main h) = 0"
    using that success_zero_fields [OF that] by (simp add: Let_def)
  have bwd: "json_success (main h) = 0"
    if "(if 0x16 \<le>s get_max_cpuid_leaf (host_hw h)
         then eax (read_cpuid (host_hw h) 0x16 0) AND 0xFFFF else 0) = 0 \<or>
        (if 0x16 \<le>s get_max_cpuid_leaf (host_hw h)
         then ebx (read_cpuid (host_hw h) 0x16 0) AND 0xFFFF else 0) = 0"
      and "\<not> (0x15 \<le>s get_max_cpuid_leaf (host_hw h) \<and>
             0 <s eax (read_cpuid (host_hw h) 0x15 0) \<and>
             0 <s ebx (read_cpuid (host_hw h) 0x15 0) \<and>
             0 <s ecx (read_cpuid (host_hw h) 0x15 0) \<and>
             (if 0x16 \<le>s get_max_cpuid_leaf (host_hw h)
              then eax (read_cpuid (host_hw h) 0x16 0) AND 0xFFFF else 0) = 0 \<and>
             fp_lt (host_fpu h) (fp_lit (host_fpu h) 0)
               (derived_base_of (host_fpu h) (read_cpuid (host_hw h) 0x15 0)))"
      and "\<forall>v. parse_frequency_from_brand (host_fpu h) (get_brand_string (host_hw h)) = Some v
             \<longrightarrow> \<not> 0 <s v"
      and "(if 0x16 \<le>s get_max_cpuid_leaf (host_hw h)
            then ebx (read_cpuid (host_hw h) 0x16 0) AND 0xFFFF else 0) = 0
             \<longrightarrow> \<not> 0 <s host_wmi_max h"
  proof -
    have "\<not> (0x16 \<le>s get_max_cpuid_leaf (host_hw h) \<and>
        eax (read_cpuid (host_hw h) 0x16 0) AND 0xFFFF \<noteq> 0 \<and>
        ebx (read_cpuid (host_hw h) 0x16 0) AND 0xFFFF \<noteq> 0)"
      using that(1) by (auto split: if_splits)
    then show ?thesis
      using that(2-4)
      by (simp only: main_success resolve_frequency_def Let_def)
        (rule no_strategy_success_zero)
  qed
  show ?thesis
  proof (cases "json_success (main h) = 0")
    case True
    then show ?thesis
      by (rule fwd)
  next
    case False
    then show ?thesis
      unfolding Let_def using bwd by blast
  qed
qed

theorem success_zero_no_strategy_witness:
  "json_success (main (host_of hw_partial16)) = 0 \<and>
   json_base_mhz (main (host_of hw_partial16)) = 3000 \<and>
   json_max_mhz (main (host_of hw_partial16)) = 0 \<and>
   json_bus_mhz (main (host_of hw_partial16)) = 100 \<and>
   eax (read_cpuid hw_partial16 0x16 0) AND 0xFFFF = 3000 \<and>
   ecx (read_cpuid hw_partial16 0x16 0) AND 0xFFFF = 100"
proof -
  have h: "json_success (main (host_of hw_partial16)) = 0"
    by (simp add: main_success host_of_def resolve_partial16)
  have "json_base_mhz (main (host_of hw_partial16)) = 3000"
    by (simp add: main_base host_of_def resolve_partial16)
  moreover have "json_max_mhz (main (host_of hw_partial16)) = 0"
    by (simp add: main_max host_of_def resolve_partial16)
  moreover have "json_bus_mhz (main (host_of hw_partial16)) = 100"
    by (simp add: main_bus host_of_def resolve_partial16)
  moreover have "eax (read_cpuid hw_partial16 0x16 0) AND 0xFFFF = 3000"
    "ecx (read_cpuid hw_partial16 0x16 0) AND 0xFFFF = 100"
    by (simp_all add: read_cpuid_def hw_partial16_def zero_result_def)
  ultimately show ?thesis
    using h success_zero_no_strategy [of "host_of hw_partial16"] by simp
qed









section \<open>Properties of the deterministic-cache-leaf decoder\<close>

text \<open>The ranges of the decoded geometry fields.\<close>

lemma masked_succ:
  assumes "uint (m :: 32 word) < 2 ^ 31 - 1"
  shows "sint ((x AND m) + 1) = uint (x AND m) + 1"
proof -
  have le: "uint (x AND m) \<le> uint m"
    by (rule uint_and_le)
  have one: "uint (1 :: 32 word) = 1"
    by simp
  have "uint (x AND m) + uint (1 :: 32 word) < 2 ^ LENGTH(32)"
    using le assms by simp
  then have u: "uint ((x AND m) + 1) = uint (x AND m) + 1"
    using uint_add_lem [of "x AND m" 1] one by simp
  then have "uint ((x AND m) + 1) < 2 ^ 31"
    using le assms by simp
  then show ?thesis
    using u sint_of_small [of "(x AND m) + 1"] by simp
qed

lemma field_ways_range: "1 \<le> sint (field_ways r) \<and> sint (field_ways r) \<le> 1024"
proof -
  have "sint (field_ways r) = uint (signed_drop_bit 22 (ebx r) AND 0x3FF) + 1"
    unfolding field_ways_def by (rule masked_succ) simp
  moreover have "uint (signed_drop_bit 22 (ebx r) AND 0x3FF) \<le> uint (0x3FF :: 32 word)"
    by (rule uint_and_le)
  ultimately show ?thesis
    by simp
qed

lemma field_partitions_range:
  "1 \<le> sint (field_partitions r) \<and> sint (field_partitions r) \<le> 1024"
proof -
  have "sint (field_partitions r) = uint (signed_drop_bit 12 (ebx r) AND 0x3FF) + 1"
    unfolding field_partitions_def by (rule masked_succ) simp
  moreover have "uint (signed_drop_bit 12 (ebx r) AND 0x3FF) \<le> uint (0x3FF :: 32 word)"
    by (rule uint_and_le)
  ultimately show ?thesis
    by simp
qed

lemma field_line_size_range:
  "1 \<le> sint (field_line_size r) \<and> sint (field_line_size r) \<le> 4096"
proof -
  have "sint (field_line_size r) = uint (ebx r AND 0xFFF) + 1"
    unfolding field_line_size_def by (rule masked_succ) simp
  moreover have "uint (ebx r AND 0xFFF) \<le> uint (0xFFF :: 32 word)"
    by (rule uint_and_le)
  ultimately show ?thesis
    by simp
qed

text \<open>The 64-bit product cannot overflow: \<open>size_bytes\<close> is the product of the four
  fields as integers.\<close>

lemma sint_scast_64: "sint (scast (w :: 32 word) :: 64 word) = sint w"
  by (rule sint_up_scast) (simp add: is_up)

lemma sint_mult_64:
  assumes "- (2 ^ 63) \<le> sint a * sint b" and "sint a * sint b < 2 ^ 63"
  shows "sint (a * b :: 64 word) = sint a * sint b"
  using assms by (simp add: sint_word_mult signed_take_bit_int_eq_self)

lemma geometry_product_bounds:
  fixes w p l s :: int
  assumes "1 \<le> w" "w \<le> 1024" "1 \<le> p" "p \<le> 1024" "1 \<le> l" "l \<le> 4096"
    and "- (2 ^ 31) \<le> s" "s < 2 ^ 31"
  shows "1 \<le> w * p" "w * p \<le> 1048576" "1 \<le> w * p * l" "w * p * l \<le> 4294967296"
    "- (2 ^ 63) \<le> w * p * l * s" "w * p * l * s < 2 ^ 63"
proof -
  show wp1: "1 \<le> w * p"
    using assms(1,3) mult_mono [of 1 w 1 p] by simp
  show wp2: "w * p \<le> 1048576"
    using assms(1-4) mult_mono [of w 1024 p 1024] by simp
  show wpl1: "1 \<le> w * p * l"
    using wp1 assms(5) mult_mono [of 1 "w * p" 1 l] by simp
  show wpl2: "w * p * l \<le> 4294967296"
    using wp1 wp2 assms(5,6) mult_mono [of "w * p" 1048576 l 4096] by simp
  have "w * p * l * s \<le> w * p * l * (2 ^ 31 - 1)"
    using wpl1 assms(8) by (intro mult_left_mono) simp_all
  also have "\<dots> \<le> 4294967296 * (2 ^ 31 - 1)"
    using wpl2 by (intro mult_right_mono) simp_all
  finally show "w * p * l * s < 2 ^ 63"
    by simp
  have "- (w * p * l * s) = w * p * l * (- s)"
    by simp
  also have "\<dots> \<le> w * p * l * 2 ^ 31"
    using wpl1 assms(7) by (intro mult_left_mono) simp_all
  also have "\<dots> \<le> 4294967296 * 2 ^ 31"
    using wpl2 by (intro mult_right_mono) simp_all
  finally show "- (2 ^ 63) \<le> w * p * l * s"
    by simp
qed

lemma sint_size_bytes:
  "sint (size_bytes_of r) =
     sint (field_ways r) * sint (field_partitions r) * sint (field_line_size r) *
     sint (field_sets r)"
proof -
  define w p l s where "w = sint (field_ways r)" and "p = sint (field_partitions r)"
    and "l = sint (field_line_size r)" and "s = sint (field_sets r)"
  have s_range: "- (2 ^ 31) \<le> s" "s < 2 ^ 31"
    using sint_ge [of "field_sets r"] sint_lt [of "field_sets r"] by (simp_all add: s_def)
  note b = geometry_product_bounds [of w p l s]
  have r: "1 \<le> w" "w \<le> 1024" "1 \<le> p" "p \<le> 1024" "1 \<le> l" "l \<le> 4096"
    using field_ways_range [of r] field_partitions_range [of r] field_line_size_range [of r]
    by (simp_all add: w_def p_def l_def)
  have wp: "sint (scast (field_ways r) * scast (field_partitions r) :: 64 word) = w * p"
    using b(1,2) [OF r s_range]
    by (subst sint_mult_64) (simp_all add: sint_scast_64 w_def p_def)
  have wpl: "sint (scast (field_ways r) * scast (field_partitions r) *
      scast (field_line_size r) :: 64 word) = w * p * l"
    using b(3,4) [OF r s_range]
    by (subst sint_mult_64) (simp_all add: wp sint_scast_64 l_def)
  have "sint (scast (field_ways r) * scast (field_partitions r) *
      scast (field_line_size r) * scast (field_sets r) :: 64 word) = w * p * l * s"
    using b(5,6) [OF r s_range]
    by (subst sint_mult_64) (simp_all add: wpl sint_scast_64 s_def)
  then show ?thesis
    by (simp add: size_bytes_of_def w_def p_def l_def s_def)
qed

lemma size_kb_of_general:
  "size_kb_of r =
     word_of_int ((sint (field_ways r) * sint (field_partitions r) *
                   sint (field_line_size r) * sint (field_sets r)) sdiv 1024)"
  by (simp add: size_kb_of_def sint_size_bytes)

lemma intel_subleaf_writes:
  assumes "select_target (eax r AND 0x1F) (signed_drop_bit 5 (eax r) AND 0x7) = Some t"
    and "size_kb (get_level t cs) = 0"
  shows "get_level t (intel_subleaf r cs) = decoded_info r"
  using assms by (cases t) (simp_all add: intel_subleaf_def Let_def)

lemma decoded_info_exact:
  assumes "0 \<le> sint (sets (decoded_info r))" and "spec_size_kb (decoded_info r) < 2 ^ 31"
  shows "sint (size_kb (decoded_info r)) = spec_size_kb (decoded_info r)"
proof -
  define k where "k = sint (field_ways r) * sint (field_partitions r) *
    sint (field_line_size r) * sint (field_sets r)"
  have s: "0 \<le> sint (field_sets r)"
    using assms(1) by (simp add: decoded_info_def)
  have "1 \<le> sint (field_ways r) * sint (field_partitions r) * sint (field_line_size r)"
    using field_ways_range [of r] field_partitions_range [of r] field_line_size_range [of r]
      sint_ge [of "field_sets r"] sint_lt [of "field_sets r"]
    by (intro geometry_product_bounds(3) [where s = "sint (field_sets r)"]) simp_all
  then have k0: "0 \<le> k"
    using s by (simp add: k_def)
  then have sd: "k sdiv 1024 = k div 1024"
    by (simp add: signed_divide_int_def sgn_if)
  have q: "spec_size_kb (decoded_info r) = k div 1024"
    by (simp add: spec_size_kb_def decoded_info_def k_def)
  have "0 \<le> k div 1024"
    using k0 by simp
  then have "- (2 ^ 31) \<le> k div 1024"
    by (rule order_trans [rotated]) simp
  moreover have "k div 1024 < 2 ^ 31"
    using assms(2) q by simp
  ultimately have "signed_take_bit 31 (k div 1024) = k div 1024"
    by (rule signed_take_bit_int_eq_self)
  then have "sint (word_of_int (k div 1024) :: 32 word) = k div 1024"
    by (simp add: sint_sbintrunc')
  then show ?thesis
    using q sd by (simp add: decoded_info_def size_kb_of_general k_def)
qed

text \<open>
  Claim C4, as stated, fails: the subleaf \<open>r_huge\<close> has every field in range (1024 ways,
  1024 partitions, 4096-byte lines, 1024 sets), the formula gives \<open>2 ^ 32\<close> KB, and the
  cast to \<open>int\<close> stores \<open>size_kb = 0\<close>.
\<close>

theorem size_kb_truncated:
  "assoc (l1d (intel_subleaf r_huge caches_zero)) = 1024 \<and>
   partitions (l1d (intel_subleaf r_huge caches_zero)) = 1024 \<and>
   line_size (l1d (intel_subleaf r_huge caches_zero)) = 4096 \<and>
   sets (l1d (intel_subleaf r_huge caches_zero)) = 1024 \<and>
   spec_size_kb (l1d (intel_subleaf r_huge caches_zero)) = 4294967296 \<and>
   size_kb (l1d (intel_subleaf r_huge caches_zero)) = 0"
  by (simp add: intel_subleaf_def r_huge_def select_target_def caches_zero_def cache_zero_def
      decoded_info_def spec_size_kb_def size_kb_of_def size_bytes_of_def field_ways_def
      field_partitions_def field_line_size_def field_sets_def Let_def)

text \<open>
  Claim C4, amended. For a level the decoder populates from a subleaf, the stored
  \<open>size_kb\<close> is the low 32 bits of the quotient, truncated towards zero, of
  associativity \<open>\<times>\<close> partitions \<open>\<times>\<close> line size \<open>\<times>\<close> sets by 1024, the four taken as
  stored (\<open>int\<close>s); it equals the formula exactly whenever the stored number of sets
  is not negative and the formula's value is below \<open>2 ^ 31\<close>.
\<close>

theorem size_kb_formula:
  assumes "select_target (eax r AND 0x1F) (signed_drop_bit 5 (eax r) AND 0x7) = Some t"
    and "size_kb (get_level t cs) = 0"
  shows "(let c = get_level t (intel_subleaf r cs)
          in size_kb c =
               word_of_int ((sint (assoc c) * sint (partitions c) * sint (line_size c) *
                             sint (sets c)) sdiv 1024) \<and>
             (0 \<le> sint (sets c) \<and> spec_size_kb c < 2 ^ 31 \<longrightarrow>
                sint (size_kb c) = spec_size_kb c))"
proof -
  have c: "get_level t (intel_subleaf r cs) = decoded_info r"
    using assms by (rule intel_subleaf_writes)
  have "size_kb (decoded_info r) =
      word_of_int ((sint (assoc (decoded_info r)) * sint (partitions (decoded_info r)) *
        sint (line_size (decoded_info r)) * sint (sets (decoded_info r))) sdiv 1024)"
    by (simp add: decoded_info_def size_kb_of_general)
  then show ?thesis
    unfolding Let_def c using decoded_info_exact [of r] by blast
qed

theorem size_kb_formula_witness:
  "select_target (eax r_l1d_32k AND 0x1F) (signed_drop_bit 5 (eax r_l1d_32k) AND 0x7) = Some L1D \<and>
   size_kb (get_level L1D caches_zero) = 0 \<and>
   0 \<le> sint (sets (get_level L1D (intel_subleaf r_l1d_32k caches_zero))) \<and>
   spec_size_kb (get_level L1D (intel_subleaf r_l1d_32k caches_zero)) = 32 \<and>
   sint (size_kb (get_level L1D (intel_subleaf r_l1d_32k caches_zero))) = 32"
proof -
  have a: "select_target (eax r_l1d_32k AND 0x1F) (signed_drop_bit 5 (eax r_l1d_32k) AND 0x7)
      = Some L1D"
    by (simp add: r_l1d_32k_def select_target_def)
  have b: "size_kb (get_level L1D caches_zero) = 0"
    by (simp add: caches_zero_def cache_zero_def)
  have c: "get_level L1D (intel_subleaf r_l1d_32k caches_zero) = decoded_info r_l1d_32k"
    using a b by (rule intel_subleaf_writes)
  have d: "sets (decoded_info r_l1d_32k) = 64"
    by (simp add: decoded_info_def field_sets_def r_l1d_32k_def)
  have e: "spec_size_kb (decoded_info r_l1d_32k) = 32"
    by (simp add: spec_size_kb_def decoded_info_def field_ways_def field_partitions_def
        field_line_size_def field_sets_def r_l1d_32k_def)
  have "0 \<le> sint (sets (decoded_info r_l1d_32k)) \<and>
      spec_size_kb (decoded_info r_l1d_32k) < 2 ^ 31 \<longrightarrow>
      sint (size_kb (decoded_info r_l1d_32k)) = spec_size_kb (decoded_info r_l1d_32k)"
    using size_kb_formula [OF a b] unfolding Let_def c by (rule conjunct2)
  then have f: "sint (size_kb (decoded_info r_l1d_32k)) = 32"
    by (simp add: d e)
  show ?thesis
    unfolding c using a b d e f by simp
qed

text \<open>A write to one level leaves the other levels alone.\<close>

lemma get_set_level:
  "get_level t (set_level t' c cs) = (if t = t' then c else get_level t cs)"
  by (cases t; cases t') simp_all

lemma intel_subleaf_keeps:
  assumes "size_kb (get_level t cs) \<noteq> 0"
  shows "get_level t (intel_subleaf r cs) = get_level t cs"
  using assms by (auto simp: intel_subleaf_def Let_def get_set_level split: option.splits)

lemma intel_loop_keeps:
  assumes "size_kb (get_level t cs) \<noteq> 0"
  shows "get_level t (intel_loop hw n cs) = get_level t cs"
  using assms
proof (induction hw n cs rule: intel_loop.induct)
  case (1 hw n cs)
  show ?case
  proof (cases "n < 32 \<and> eax (read_cpuid hw 4 (of_nat n)) AND 0x1F \<noteq> 0")
    case True
    let ?r = "read_cpuid hw 4 (of_nat n)"
    have k: "get_level t (intel_subleaf ?r cs) = get_level t cs"
      using "1.prems" by (rule intel_subleaf_keeps)
    then have "size_kb (get_level t (intel_subleaf ?r cs)) \<noteq> 0"
      using "1.prems" by simp
    then have "get_level t (intel_loop hw (n + 1) (intel_subleaf ?r cs)) =
        get_level t (intel_subleaf ?r cs)"
      using True by (intro "1.IH") simp_all
    then show ?thesis
      using True k by (subst intel_loop.simps) (simp add: Let_def)
  next
    case False
    then show ?thesis
      by (subst intel_loop.simps) (auto simp: Let_def)
  qed
qed

text \<open>
  Claim C8 on the code. The guard that is to let a level be filled only once tests
  \<open>size_kb\<close>, and a level written with a size of 0 KB still passes it. With leaf 4
  reporting the level-1 data cache first as \<open>r_tiny\<close> (one way, one partition, one-byte
  lines, one set: 0 KB) and then as \<open>r_l1d_32k\<close>, the first subleaf populates the
  record and the duplicate populates it again, so the decoder returns the second
  subleaf's geometry where the first writer should have won.
\<close>

theorem level_populated_twice:
  "l1d (intel_subleaf r_tiny caches_zero) =
     \<lparr>size_kb = 0, assoc = 1, line_size = 1, partitions = 1, sets = 1,
      cores_sharing = 1, is_inclusive = 0\<rparr> \<and>
   l1d (intel_subleaf r_l1d_32k (intel_subleaf r_tiny caches_zero)) =
     \<lparr>size_kb = 32, assoc = 8, line_size = 64, partitions = 1, sets = 64,
      cores_sharing = 1, is_inclusive = 0\<rparr> \<and>
   l1d (detect_intel_caches hw_dup_l1d caches_zero) =
     \<lparr>size_kb = 32, assoc = 8, line_size = 64, partitions = 1, sets = 64,
      cores_sharing = 1, is_inclusive = 0\<rparr>"
  by (simp add: detect_intel_caches_def hw_dup_l1d_def read_cpuid_def zero_result_def
      intel_subleaf_def r_tiny_def r_l1d_32k_def select_target_def caches_zero_def
      cache_zero_def decoded_info_def size_kb_of_def size_bytes_of_def field_ways_def
      field_partitions_def field_line_size_def field_sets_def decode_cores_sharing_def Let_def
      intel_loop.simps bit_count_loop.simps signed_divide_int_def)

text \<open>
  A record whose \<open>size_kb\<close> is not 0 is left unchanged by every subleaf, by the rest of
  the decoder's loop from any subleaf on, and by a whole run of the decoder.
\<close>

theorem first_writer_wins:
  assumes "size_kb (get_level t cs) \<noteq> 0"
  shows "get_level t (intel_subleaf r cs) = get_level t cs \<and>
         get_level t (intel_loop hw n cs) = get_level t cs \<and>
         get_level t (detect_intel_caches hw cs) = get_level t cs"
  using intel_subleaf_keeps [OF assms, of r] intel_loop_keeps [OF assms, of hw]
  by (simp add: detect_intel_caches_def)

theorem first_writer_wins_witness:
  "size_kb (get_level L1D (intel_subleaf r_l1d_32k caches_zero)) \<noteq> 0 \<and>
   get_level L1D (intel_subleaf r_huge (intel_subleaf r_l1d_32k caches_zero)) =
     get_level L1D (intel_subleaf r_l1d_32k caches_zero) \<and>
   get_level L1D (detect_intel_caches hw_dup_l1d (intel_subleaf r_l1d_32k caches_zero)) =
     get_level L1D (intel_subleaf r_l1d_32k caches_zero)"
proof -
  have "size_kb (decoded_info r_l1d_32k) = 32"
    by (simp add: decoded_info_def size_kb_of_def size_bytes_of_def field_ways_def
        field_partitions_def field_line_size_def field_sets_def r_l1d_32k_def)
  moreover have "get_level L1D (intel_subleaf r_l1d_32k caches_zero) = decoded_info r_l1d_32k"
    by (rule intel_subleaf_writes)
      (simp_all add: r_l1d_32k_def select_target_def caches_zero_def cache_zero_def)
  ultimately have h: "size_kb (get_level L1D (intel_subleaf r_l1d_32k caches_zero)) \<noteq> 0"
    by simp
  show ?thesis
    using h first_writer_wins [OF h, of r_huge hw_dup_l1d 0]
    by (simp add: detect_intel_caches_def)
qed

section \<open>Properties of the cache-sharing grouper and the instance counts\<close>

lemma in_range_unat:
  assumes "in_range g"
  shows "unat g < 256"
proof -
  have s: "0 \<le> sint g" "sint g < 256"
    using assms by (simp_all add: in_range_def word_sle_eq word_sless_alt)
  have "uint g = take_bit 32 (sint g)"
    using uint_sint [of g] by simp
  also have "\<dots> = sint g"
    using s by (intro take_bit_int_eq_self) simp_all
  finally show ?thesis
    using s by (simp add: unat_eq_nat_uint)
qed

lemma counted_init: "counted {} (replicate 256 0, 0)"
  by (simp add: counted_def in_range_unat)

lemma counted_step:
  assumes "counted P st"
  shows "counted (if in_range g then insert g P else P) (count_step g st)"
proof (cases "in_range g")
  case False
  then show ?thesis
    using assms by (cases st) (auto simp: count_step_def in_range_def)
next
  case True
  obtain seen unique where st: "st = (seen, unique)"
    by (cases st)
  have inv: "length seen = 256" "finite P" "\<forall>g. g \<in> P \<longrightarrow> in_range g"
    "\<forall>g. in_range g \<longrightarrow> (seen ! unat g \<noteq> 0) = (g \<in> P)" "unique = card P"
    using assms by (simp_all add: counted_def st)
  show ?thesis
  proof (cases "seen ! unat g = 0")
    case False
    then have "g \<in> P"
      using inv(4) True by blast
    then have "insert g P = P"
      by blast
    then show ?thesis
      using assms True False by (simp add: count_step_def st)
  next
    case z: True
    then have notin: "g \<notin> P"
      using inv(4) True by blast
    have step: "count_step g st = (seen[unat g := 1], unique + 1)"
      using True z by (simp add: count_step_def st in_range_def)
    have "(seen[unat g := 1] ! unat g' \<noteq> 0) = (g' \<in> insert g P)" if "in_range g'" for g'
    proof (cases "g' = g")
      case True
      then show ?thesis
        using in_range_unat [OF that] inv(1) by simp
    next
      case False
      then have "unat g \<noteq> unat g'"
        using word_unat_eq_iff [of g g'] by simp
      then show ?thesis
        using False inv(4) that by simp
    qed
    then show ?thesis
      using True notin inv by (simp add: counted_def step)
  qed
qed

lemma counted_fold:
  assumes "counted P st"
  shows "counted (P \<union> {g \<in> set xs. in_range g}) (fold count_step xs st)"
  using assms
proof (induction xs arbitrary: P st)
  case Nil
  then show ?case by simp
next
  case (Cons g xs)
  have "counted ((if in_range g then insert g P else P) \<union> {g \<in> set xs. in_range g})
      (fold count_step xs (count_step g st))"
    using Cons.prems by (intro Cons.IH counted_step)
  moreover have "(if in_range g then insert g P else P) \<union> {g \<in> set xs. in_range g} =
      P \<union> {g' \<in> set (g # xs). in_range g'}"
    by auto
  ultimately show ?case
    by simp
qed

lemma fold_nth: "fold (\<lambda>i. f (xs ! i)) [0..<length xs] s = fold f xs s"
proof -
  have "fold f (map (\<lambda>i. xs ! i) [0..<length xs]) s = fold (f \<circ> (\<lambda>i. xs ! i)) [0..<length xs] s"
    by (simp add: fold_map)
  then show ?thesis
    by (simp add: map_nth comp_def)
qed

lemma count_unique_card:
  "count_unique groups (length groups) = card {g \<in> set groups. in_range g}"
proof -
  have "counted ({} \<union> {g \<in> set groups. in_range g})
      (fold count_step groups (replicate 256 0, 0))"
    using counted_init by (rule counted_fold)
  then show ?thesis
    by (simp add: count_unique_def fold_nth counted_def)
qed

text \<open>
  Claim C10. The instance count of a level is the number of distinct group ids between
  0 and 255 among the enumerated processors: a processor whose group id is negative or
  at least 256 adds nothing to it, wherever it stands in the enumeration.
\<close>

theorem instance_count_range:
  "count_unique groups (length groups) = card {g \<in> set groups. 0 \<le>s g \<and> g <s 256} \<and>
   (\<not> (0 \<le>s g \<and> g <s 256) \<longrightarrow>
      count_unique (xs @ g # ys) (length (xs @ g # ys)) =
      count_unique (xs @ ys) (length (xs @ ys))) \<and>
   count_instances (Some l1d_groups, Some l2_groups, Some l3_groups) n =
     (count_unique l1d_groups n, count_unique l2_groups n, count_unique l3_groups n)"
proof (intro conjI impI)
  show "count_unique groups (length groups) = card {g \<in> set groups. 0 \<le>s g \<and> g <s 256}"
    using count_unique_card [of groups] by (simp add: in_range_def)
next
  assume "\<not> (0 \<le>s g \<and> g <s 256)"
  then have "{g' \<in> set (xs @ g # ys). in_range g'} = {g' \<in> set (xs @ ys). in_range g'}"
    by (auto simp: in_range_def)
  then show "count_unique (xs @ g # ys) (length (xs @ g # ys)) =
      count_unique (xs @ ys) (length (xs @ ys))"
    by (simp only: count_unique_card)
next
  show "count_instances (Some l1d_groups, Some l2_groups, Some l3_groups) n =
     (count_unique l1d_groups n, count_unique l2_groups n, count_unique l3_groups n)"
    by (simp add: count_instances_def)
qed

theorem instance_count_range_witness:
  "\<not> (0 \<le>s (- 1 :: 32 word) \<and> (- 1 :: 32 word) <s 256) \<and>
   count_unique ([0, 5] @ (- 1) # [256, 0]) (length ([0, 5] @ (- 1) # [256 :: 32 word, 0])) =
   count_unique ([0, 5] @ [256, 0]) (length ([0, 5] @ [256 :: 32 word, 0])) \<and>
   count_unique [0, 5, - 1, 256, 0] 5 = 2"
proof -
  have h: "\<not> (0 \<le>s (- 1 :: 32 word) \<and> (- 1 :: 32 word) <s 256)"
    by (simp add: word_sle_eq)
  have "count_unique [0, 5, - 1, 256, 0] 5 = 2"
    by (simp add: count_unique_def count_step_def word_sle_eq word_sless_alt upt_rec)
  then show ?thesis
    using h instance_count_range [of _ "- 1" "[0, 5]" "[256, 0]"] by simp
qed

text \<open>A fill loop over a block of the right size leaves the values it computes.\<close>

lemma fill_loop_prefix:
  assumes "n \<le> length block"
  shows "fill_loop f n block = map f [0..<n] @ drop n block"
  using assms
proof (induction n)
  case 0
  then show ?case
    by (simp add: fill_loop_def)
next
  case (Suc n)
  then have n: "n < length block"
    by simp
  have "fill_loop f (Suc n) block = (fill_loop f n block)[n := f n]"
    by (simp add: fill_loop_def)
  also have "\<dots> = (map f [0..<n] @ drop n block)[n := f n]"
    using Suc by simp
  also have "\<dots> = map f [0..<n] @ (drop n block)[0 := f n]"
    by (simp add: list_update_append)
  also have "drop n block = block ! n # drop (Suc n) block"
    using n by (rule Cons_nth_drop_Suc [symmetric])
  finally show ?case
    by simp
qed

lemma fill_loop_full:
  assumes "length block = n"
  shows "fill_loop f n block = map f [0..<n]"
  using fill_loop_prefix [of n block f] assms by simp

lemma map_group_of:
  "map (group_of topo_array shift) [0..<length topo_array] =
     map (\<lambda>t. signed_drop_bit shift (apic_id t)) topo_array"
proof -
  have "map (\<lambda>t. signed_drop_bit shift (apic_id t)) (map (\<lambda>i. topo_array ! i)
      [0..<length topo_array]) = map (group_of topo_array shift) [0..<length topo_array]"
    by (simp add: group_of_def)
  then show ?thesis
    by (simp add: map_nth)
qed

text \<open>What the grouper returns when the enumeration is not empty and the three blocks
  were allocated: the initial \<open>-1\<close> of every entry is overwritten by the shifted
  hardware identifier.\<close>

lemma derive_groups:
  assumes "topo_array \<noteq> []"
    and "length b1 = length topo_array" "length b2 = length topo_array"
    and "length b3 = length topo_array"
  shows "derive_cache_sharing_groups topo_array l1d_info l2_info l3_info
           (Some b1, Some b2, Some b3) =
         (Some (map (\<lambda>t. signed_drop_bit (calc_shift (cores_sharing l1d_info)) (apic_id t))
                  topo_array),
          Some (map (\<lambda>t. signed_drop_bit (calc_shift (cores_sharing l2_info)) (apic_id t))
                  topo_array),
          Some (map (\<lambda>t. signed_drop_bit (calc_shift (cores_sharing l3_info)) (apic_id t))
                  topo_array))"
proof -
  have init: "fill_loop (\<lambda>i. - 1) (length topo_array) b =
      map (\<lambda>i. - 1) [0..<length topo_array]" if "length b = length topo_array" for b
    using that by (rule fill_loop_full)
  have "fill_loop (group_of topo_array s) (length topo_array)
      (fill_loop (\<lambda>i. - 1) (length topo_array) b) =
      map (\<lambda>t. signed_drop_bit s (apic_id t)) topo_array"
    if "length b = length topo_array" for b s
    using that by (simp add: init fill_loop_full map_group_of)
  then show ?thesis
    using assms by (simp add: derive_cache_sharing_groups_def Let_def)
qed

text \<open>The loop of \<open>calc_shift\<close> computes the integer part of the binary logarithm.\<close>

lemma shift_loop_log:
  assumes "1 \<le> val"
  shows "\<exists>d. shift_loop val shift = shift + d \<and> 2 ^ d \<le> val \<and> val < 2 ^ (d + 1)"
  using assms
proof (induction val shift rule: shift_loop.induct)
  case (1 val shift)
  show ?case
  proof (cases "1 < val")
    case False
    then have "val = 1"
      using "1.prems" by simp
    then show ?thesis
      by (subst shift_loop.simps) simp
  next
    case True
    then have "1 \<le> val div 2"
      by simp
    then obtain d where d: "shift_loop (val div 2) (shift + 1) = shift + 1 + d"
      "2 ^ d \<le> val div 2" "val div 2 < 2 ^ (d + 1)"
      using "1.IH" [OF True] by blast
    have "shift_loop val shift = shift + (d + 1)"
      using True d(1) by (subst shift_loop.simps) simp
    moreover have "2 ^ (d + 1) \<le> val"
      using d(2) by simp
    moreover have "val < 2 ^ (d + 1 + 1)"
      using d(3) by simp
    ultimately show ?thesis
      by blast
  qed
qed

lemma calc_shift_log:
  assumes "1 <s c"
  shows "2 ^ calc_shift c \<le> sint c \<and> sint c < 2 ^ (calc_shift c + 1)"
proof -
  have c: "1 < sint c"
    using assms by (simp add: word_sless_alt)
  then obtain d where "shift_loop (sint c) 0 = 0 + d" "2 ^ d \<le> sint c" "sint c < 2 ^ (d + 1)"
    using shift_loop_log [of "sint c" 0] by auto
  moreover have "calc_shift c = shift_loop (sint c) 0"
    using c by (simp add: calc_shift_def word_sle_eq)
  ultimately show ?thesis
    by simp
qed

lemma calc_shift_8: "calc_shift 8 = 3"
  by (simp add: calc_shift_def word_sle_eq shift_loop.simps)

text \<open>Identifiers that agree outside their low three bits agree after the shift by 3.\<close>

lemma same_group_low3:
  assumes "(a :: 32 word) AND NOT 7 = b AND NOT 7"
  shows "signed_drop_bit 3 a = signed_drop_bit 3 b"
proof (rule bit_word_eqI)
  fix n
  assume "n < LENGTH(32)"
  have seven: "(7 :: 32 word) = mask 3"
    by (simp add: mask_eq_exp_minus_1)
  have hi: "bit a m = bit b m" if "3 \<le> m" for m
  proof -
    have "bit (a AND NOT 7) m = bit (b AND NOT 7) m"
      using assms by simp
    then show ?thesis
      using that by (auto simp: bit_and_iff bit_not_iff seven bit_mask_iff dest: bit_imp_le_length)
  qed
  show "bit (signed_drop_bit 3 a) n = bit (signed_drop_bit 3 b) n"
    by (simp add: bit_signed_drop_bit_iff hi)
qed

text \<open>The evaluation of the run on \<open>host_two\<close>, step by step.\<close>

lemma vendor_plain: "get_cpu_vendor (hw_plain a) = VENDOR_UNKNOWN"
  by (simp add: get_cpu_vendor_def hw_plain_def read_cpuid_def zero_result_def word_bytes_def
      char_of_def Let_def)

lemma count_two: "count_logical_processors (lpi_infos os_two) = 2"
  by (simp add: os_two_def count_logical_processors_def count_mask_bits.simps)

lemma level_plain: "level_loop (hw_plain a) 0xB 0 bits = bits"
  by (simp add: level_loop.simps [of _ _ 0] hw_plain_def read_cpuid_def zero_result_def Let_def)

lemma record_plain:
  "topology_record (hw_plain a) 0xB 0xB lp =
     \<lparr>apic_id = a, core_type = 0, core_index = 0, logical_index = of_nat lp, package_id = a,
      tile_id = 0, die_id = 0, module_id = 0\<rparr>"
  by (simp add: topology_record_def level_plain read_core_type_def word_sle_eq
      hw_plain_def read_cpuid_def zero_result_def Let_def)

lemma set_two:
  "SetThreadAffinityMask os_two 1 a = (a, 1)"
  "SetThreadAffinityMask os_two 2 a = (a, 2)"
  "SetThreadAffinityMask os_two 3 a = (a, 3)"
  by (simp_all add: SetThreadAffinityMask_def os_two_def)

lemma loop_two:
  "topo_loop os_two (\<lambda>lp. hw_plain (of_nat lp)) 0xB 0xB 2 0 [] 1 =
     ([topology_record (hw_plain 0) 0xB 0xB 0, topology_record (hw_plain 1) 0xB 0xB 1], 2)"
  apply (subst topo_loop.simps)
  apply (simp add: set_two Let_def)
  apply (subst topo_loop.simps)
  apply (simp add: set_two Let_def)
  apply (subst topo_loop.simps)
  apply simp
  done

lemma topo_two:
  "detect_apic_topology os_two (hw_plain 0) (\<lambda>lp. hw_plain (of_nat lp)) 3 =
     ([\<lparr>apic_id = 0, core_type = 0, core_index = 0, logical_index = 0, package_id = 0,
        tile_id = 0, die_id = 0, module_id = 0\<rparr>,
       \<lparr>apic_id = 1, core_type = 0, core_index = 0, logical_index = 1, package_id = 1,
        tile_id = 0, die_id = 0, module_id = 0\<rparr>], 3)"
proof -
  have "eax (read_cpuid (hw_plain 0) 0 0) = 0xB"
    by (simp add: hw_plain_def read_cpuid_def zero_result_def)
  moreover have "lpi_buffer_size os_two = 48" "lpi_malloc_ok os_two" "lpi_query_ok os_two"
    by (simp_all add: os_two_def)
  ultimately show ?thesis
    by (simp add: detect_apic_topology_def Let_def word_sle_eq word_sless_alt count_two
        set_two loop_two record_plain)
qed

text \<open>The parts of the printed object that depend on the grouper.\<close>

lemma main_groups:
  "map entry_l1d_group (json_apic_ids (main h)) =
     map (group_at (fst (derive_cache_sharing_groups
       (fst (detect_apic_topology (host_os h) (host_hw h) (host_cpus h) (host_affinity h)))
       (l1d (json_caches (main h))) (l2 (json_caches (main h))) (l3 (json_caches (main h)))
       (host_heap h))))
       [0..<json_num_logical_cores (main h)]"
  by (simp add: main_def Let_def comp_def)

lemma main_instances:
  "(json_l1d_instances (main h), json_l2_instances (main h), json_l3_instances (main h)) =
     count_instances (derive_cache_sharing_groups
       (fst (detect_apic_topology (host_os h) (host_hw h) (host_cpus h) (host_affinity h)))
       (l1d (json_caches (main h))) (l2 (json_caches (main h))) (l3 (json_caches (main h)))
       (host_heap h))
       (json_num_logical_cores (main h))"
  by (simp add: main_def Let_def)

lemma main_caches: "json_caches (main h) = detect_caches (get_cpu_vendor (host_hw h)) (host_hw h)"
  by (simp add: main_def Let_def)

lemma main_num_cores:
  "json_num_logical_cores (main h) =
     length (fst (detect_apic_topology (host_os h) (host_hw h) (host_cpus h) (host_affinity h)))"
  by (simp add: main_def Let_def)

text \<open>
  Claim C2, as stated, fails: \<open>host_two\<close> has an unrecognised vendor, so all cache levels
  stay zero-filled, and two enumerated processors with hardware identifiers 0 and 1. The
  grouper overwrites the initial \<open>-1\<close> of every entry with the identifier shifted by 0,
  so each processor gets its own identifier as group id and every instance count is 2.
\<close>

theorem unknown_vendor_counts_not_zero:
  "get_cpu_vendor (host_hw host_two) = VENDOR_UNKNOWN \<and>
   json_caches (main host_two) = caches_zero \<and>
   json_num_logical_cores (main host_two) = 2 \<and>
   map entry_l1d_group (json_apic_ids (main host_two)) = [0, 1] \<and>
   json_l1d_instances (main host_two) = 2 \<and>
   json_l2_instances (main host_two) = 2 \<and>
   json_l3_instances (main host_two) = 2"
proof -
  have v: "get_cpu_vendor (host_hw host_two) = VENDOR_UNKNOWN"
    by (simp add: host_two_def vendor_plain)
  then have c: "json_caches (main host_two) = caches_zero"
    by (simp add: main_caches detect_caches_def)
  have t: "detect_apic_topology (host_os host_two) (host_hw host_two) (host_cpus host_two)
      (host_affinity host_two) =
     ([\<lparr>apic_id = 0, core_type = 0, core_index = 0, logical_index = 0, package_id = 0,
        tile_id = 0, die_id = 0, module_id = 0\<rparr>,
       \<lparr>apic_id = 1, core_type = 0, core_index = 0, logical_index = 1, package_id = 1,
        tile_id = 0, die_id = 0, module_id = 0\<rparr>], 3)"
    by (simp add: host_two_def topo_two)
  have n: "json_num_logical_cores (main host_two) = 2"
    by (simp add: main_num_cores t)
  have s: "calc_shift (cores_sharing cache_zero) = 0"
    by (simp add: calc_shift_def cache_zero_def word_sle_eq)
  have d: "derive_cache_sharing_groups
      (fst (detect_apic_topology (host_os host_two) (host_hw host_two) (host_cpus host_two)
         (host_affinity host_two)))
      (l1d (json_caches (main host_two))) (l2 (json_caches (main host_two)))
      (l3 (json_caches (main host_two))) (host_heap host_two) =
      (Some [0, 1], Some [0, 1], Some [0, 1])"
    unfolding t c by (simp add: host_two_def caches_zero_def derive_groups s)
  have g: "map entry_l1d_group (json_apic_ids (main host_two)) = [0, 1]"
    unfolding main_groups d n by (simp add: group_at_def upt_rec)
  have u: "count_unique [0, 1] 2 = 2"
    by (simp add: count_unique_def count_step_def word_sle_eq word_sless_alt upt_rec)
  have "(json_l1d_instances (main host_two), json_l2_instances (main host_two),
      json_l3_instances (main host_two)) = (2, 2, 2)"
    unfolding main_instances d n by (simp add: count_instances_def u)
  then show ?thesis
    using v c n g by simp
qed

lemma main_groups_l2:
  "map entry_l2_group (json_apic_ids (main h)) =
     map (group_at (fst (snd (derive_cache_sharing_groups
       (fst (detect_apic_topology (host_os h) (host_hw h) (host_cpus h) (host_affinity h)))
       (l1d (json_caches (main h))) (l2 (json_caches (main h))) (l3 (json_caches (main h)))
       (host_heap h)))))
       [0..<json_num_logical_cores (main h)]"
  by (simp add: main_def Let_def comp_def)

lemma main_groups_l3:
  "map entry_l3_group (json_apic_ids (main h)) =
     map (group_at (snd (snd (derive_cache_sharing_groups
       (fst (detect_apic_topology (host_os h) (host_hw h) (host_cpus h) (host_affinity h)))
       (l1d (json_caches (main h))) (l2 (json_caches (main h))) (l3 (json_caches (main h)))
       (host_heap h)))))
       [0..<json_num_logical_cores (main h)]"
  by (simp add: main_def Let_def comp_def)

lemma map_group_at:
  assumes "length xs = n"
  shows "map (group_at (Some xs)) [0..<n] = xs"
proof -
  have "group_at (Some xs) = (\<lambda>i. xs ! i)"
    by (rule ext) (simp add: group_at_def)
  then show ?thesis
    using assms by (auto simp: map_nth)
qed

text \<open>
  Claim C2, amended. For a cache level whose \<open>cores_sharing\<close> is at most 1 (the
  "unknown" sentinel \<open>-1\<close>, the zero of an undetected level, or 1) the shift is 0 and the
  grouper gives every enumerated processor its own hardware identifier as group id for
  that level. With an unrecognised vendor all cache levels are zero-filled, every
  \<open>*_group\<close> field is the processor's hardware identifier, and each instance count is
  the number of distinct hardware identifiers between 0 and 255.
\<close>

theorem unknown_sharing_own_identifier:
  assumes "topo_array \<noteq> []"
    and "length b1 = length topo_array" and "length b2 = length topo_array"
    and "length b3 = length topo_array"
  shows "(cores_sharing l1d_info \<le>s 1 \<longrightarrow>
            fst (derive_cache_sharing_groups topo_array l1d_info l2_info l3_info
                   (Some b1, Some b2, Some b3)) = Some (map apic_id topo_array)) \<and>
         (cores_sharing l2_info \<le>s 1 \<longrightarrow>
            fst (snd (derive_cache_sharing_groups topo_array l1d_info l2_info l3_info
                   (Some b1, Some b2, Some b3))) = Some (map apic_id topo_array)) \<and>
         (cores_sharing l3_info \<le>s 1 \<longrightarrow>
            snd (snd (derive_cache_sharing_groups topo_array l1d_info l2_info l3_info
                   (Some b1, Some b2, Some b3))) = Some (map apic_id topo_array)) \<and>
         (get_cpu_vendor (host_hw h) = VENDOR_UNKNOWN \<and>
          host_heap h = (Some b1, Some b2, Some b3) \<and>
          fst (detect_apic_topology (host_os h) (host_hw h) (host_cpus h) (host_affinity h)) =
            topo_array \<longrightarrow>
            json_caches (main h) = caches_zero \<and>
            map entry_l1d_group (json_apic_ids (main h)) = map apic_id topo_array \<and>
            map entry_l2_group (json_apic_ids (main h)) = map apic_id topo_array \<and>
            map entry_l3_group (json_apic_ids (main h)) = map apic_id topo_array \<and>
            json_l1d_instances (main h) =
              card {a \<in> set (map apic_id topo_array). 0 \<le>s a \<and> a <s 256} \<and>
            json_l2_instances (main h) =
              card {a \<in> set (map apic_id topo_array). 0 \<le>s a \<and> a <s 256} \<and>
            json_l3_instances (main h) =
              card {a \<in> set (map apic_id topo_array). 0 \<le>s a \<and> a <s 256})"
proof -
  note d = derive_groups [OF assms]
  have z: "calc_shift c = 0" if "c \<le>s 1" for c
    using that by (simp add: calc_shift_def)
  have levels: "cores_sharing l1d_info \<le>s 1 \<longrightarrow>
      fst (derive_cache_sharing_groups topo_array l1d_info l2_info l3_info
             (Some b1, Some b2, Some b3)) = Some (map apic_id topo_array)"
    "cores_sharing l2_info \<le>s 1 \<longrightarrow>
      fst (snd (derive_cache_sharing_groups topo_array l1d_info l2_info l3_info
             (Some b1, Some b2, Some b3))) = Some (map apic_id topo_array)"
    "cores_sharing l3_info \<le>s 1 \<longrightarrow>
      snd (snd (derive_cache_sharing_groups topo_array l1d_info l2_info l3_info
             (Some b1, Some b2, Some b3))) = Some (map apic_id topo_array)"
    by (simp_all add: d z)
  have run: "json_caches (main h) = caches_zero \<and>
      map entry_l1d_group (json_apic_ids (main h)) = map apic_id topo_array \<and>
      map entry_l2_group (json_apic_ids (main h)) = map apic_id topo_array \<and>
      map entry_l3_group (json_apic_ids (main h)) = map apic_id topo_array \<and>
      json_l1d_instances (main h) =
        card {a \<in> set (map apic_id topo_array). 0 \<le>s a \<and> a <s 256} \<and>
      json_l2_instances (main h) =
        card {a \<in> set (map apic_id topo_array). 0 \<le>s a \<and> a <s 256} \<and>
      json_l3_instances (main h) =
        card {a \<in> set (map apic_id topo_array). 0 \<le>s a \<and> a <s 256}"
    if v: "get_cpu_vendor (host_hw h) = VENDOR_UNKNOWN"
      and hp: "host_heap h = (Some b1, Some b2, Some b3)"
      and t: "fst (detect_apic_topology (host_os h) (host_hw h) (host_cpus h)
                (host_affinity h)) = topo_array"
  proof -
    have c: "json_caches (main h) = caches_zero"
      using v by (simp add: main_caches detect_caches_def)
    have n: "json_num_logical_cores (main h) = length (map apic_id topo_array)"
      by (simp add: main_num_cores t)
    have s: "calc_shift (cores_sharing cache_zero) = 0"
      by (simp add: calc_shift_def cache_zero_def word_sle_eq)
    have g: "derive_cache_sharing_groups
        (fst (detect_apic_topology (host_os h) (host_hw h) (host_cpus h) (host_affinity h)))
        (l1d (json_caches (main h))) (l2 (json_caches (main h)))
        (l3 (json_caches (main h))) (host_heap h) =
        (Some (map apic_id topo_array), Some (map apic_id topo_array),
         Some (map apic_id topo_array))"
      unfolding t c hp by (simp add: caches_zero_def d s)
    have e: "map entry_l1d_group (json_apic_ids (main h)) = map apic_id topo_array"
      "map entry_l2_group (json_apic_ids (main h)) = map apic_id topo_array"
      "map entry_l3_group (json_apic_ids (main h)) = map apic_id topo_array"
      unfolding main_groups main_groups_l2 main_groups_l3 g n by (simp_all add: map_group_at)
    have "count_unique (map apic_id topo_array) (length (map apic_id topo_array)) =
        card {a \<in> set (map apic_id topo_array). 0 \<le>s a \<and> a <s 256}"
      using count_unique_card [of "map apic_id topo_array"] by (simp add: in_range_def)
    then have "(json_l1d_instances (main h), json_l2_instances (main h),
        json_l3_instances (main h)) =
        (card {a \<in> set (map apic_id topo_array). 0 \<le>s a \<and> a <s 256},
         card {a \<in> set (map apic_id topo_array). 0 \<le>s a \<and> a <s 256},
         card {a \<in> set (map apic_id topo_array). 0 \<le>s a \<and> a <s 256})"
      unfolding main_instances g n by (simp add: count_instances_def)
    then show ?thesis
      using c e by simp
  qed
  show ?thesis
    using levels run by blast
qed

theorem unknown_sharing_own_identifier_witness:
  "fst (detect_apic_topology (host_os host_two) (host_hw host_two) (host_cpus host_two)
     (host_affinity host_two)) \<noteq> [] \<and>
   get_cpu_vendor (host_hw host_two) = VENDOR_UNKNOWN \<and>
   host_heap host_two = (Some [0, 0], Some [0, 0], Some [0, 0]) \<and>
   cores_sharing (amd_fill 32 cache_zero) \<le>s 1 \<and>
   map entry_l2_group (json_apic_ids (main host_two)) = [0, 1] \<and>
   fst (derive_cache_sharing_groups
      (fst (detect_apic_topology (host_os host_two) (host_hw host_two) (host_cpus host_two)
         (host_affinity host_two)))
      (amd_fill 32 cache_zero) cache_zero cache_zero (Some [0, 0], Some [0, 0], Some [0, 0])) =
     Some [0, 1]"
proof -
  define topo where "topo = fst (detect_apic_topology (host_os host_two) (host_hw host_two)
    (host_cpus host_two) (host_affinity host_two))"
  have t: "topo =
     [\<lparr>apic_id = 0, core_type = 0, core_index = 0, logical_index = 0, package_id = 0,
        tile_id = 0, die_id = 0, module_id = 0\<rparr>,
       \<lparr>apic_id = 1, core_type = 0, core_index = 0, logical_index = 1, package_id = 1,
        tile_id = 0, die_id = 0, module_id = 0\<rparr>]"
    by (simp add: topo_def host_two_def topo_two)
  have ne: "topo \<noteq> []" and len: "length [0 :: 32 word, 0] = length topo"
    by (simp_all add: t)
  have v: "get_cpu_vendor (host_hw host_two) = VENDOR_UNKNOWN"
    by (simp add: host_two_def vendor_plain)
  have hp: "host_heap host_two = (Some [0, 0], Some [0, 0], Some [0, 0])"
    by (simp add: host_two_def)
  have a: "cores_sharing (amd_fill 32 cache_zero) \<le>s 1"
    by (simp add: amd_fill_def cache_zero_def word_sle_eq word_sless_alt)
  have m: "map apic_id topo = [0, 1]"
    by (simp add: t)
  show ?thesis
    using ne v hp a
      unknown_sharing_own_identifier [OF ne len len len, of "amd_fill 32 cache_zero"
        cache_zero cache_zero host_two]
    unfolding topo_def [symmetric] m by simp
qed
text \<open>The evaluation of the run on \<open>host_intel_two\<close>, step by step.\<close>

lemma vendor_intel_l3: "get_cpu_vendor (hw_intel_l3 a) = VENDOR_INTEL"
  by (simp add: get_cpu_vendor_def hw_intel_l3_def read_cpuid_def word_bytes_def
      char_of_def bit_Suc_0_iff Let_def)

lemma sharing_l3_shared8: "decode_cores_sharing (eax r_l3_shared8) = 8"
  by (simp add: decode_cores_sharing_def r_l3_shared8_def bit_count_loop.simps Let_def)

lemma caches_intel_l3:
  "detect_caches VENDOR_INTEL (hw_intel_l3 a) =
     caches_zero\<lparr>l3 := decoded_info r_l3_shared8\<rparr>"
  by (simp add: detect_caches_def detect_intel_caches_def intel_loop.simps [of _ 0]
      intel_loop.simps [of _ "Suc 0"] hw_intel_l3_def read_cpuid_def zero_result_def
      intel_subleaf_def select_target_def caches_zero_def cache_zero_def r_l3_shared8_def
      Let_def)

lemma level_intel_l3: "level_loop (hw_intel_l3 a) 0xB 0 bits = bits"
  by (simp add: level_loop.simps [of _ _ 0] hw_intel_l3_def read_cpuid_def zero_result_def
      Let_def)

lemma record_intel_l3:
  "topology_record (hw_intel_l3 a) 0xB 0xB lp =
     \<lparr>apic_id = a, core_type = 0, core_index = 0, logical_index = of_nat lp, package_id = a,
      tile_id = 0, die_id = 0, module_id = 0\<rparr>"
  by (simp add: topology_record_def level_intel_l3 read_core_type_def word_sle_eq
      hw_intel_l3_def read_cpuid_def zero_result_def Let_def)

lemma loop_intel_two:
  "topo_loop os_two (\<lambda>lp. hw_intel_l3 (of_nat lp)) 0xB 0xB 2 0 [] 1 =
     ([topology_record (hw_intel_l3 0) 0xB 0xB 0, topology_record (hw_intel_l3 1) 0xB 0xB 1], 2)"
  apply (subst topo_loop.simps)
  apply (simp add: set_two Let_def)
  apply (subst topo_loop.simps)
  apply (simp add: set_two Let_def)
  apply (subst topo_loop.simps)
  apply simp
  done

lemma topo_intel_two:
  "detect_apic_topology os_two (hw_intel_l3 0) (\<lambda>lp. hw_intel_l3 (of_nat lp)) 3 =
     ([\<lparr>apic_id = 0, core_type = 0, core_index = 0, logical_index = 0, package_id = 0,
        tile_id = 0, die_id = 0, module_id = 0\<rparr>,
       \<lparr>apic_id = 1, core_type = 0, core_index = 0, logical_index = 1, package_id = 1,
        tile_id = 0, die_id = 0, module_id = 0\<rparr>], 3)"
proof -
  have "eax (read_cpuid (hw_intel_l3 0) 0 0) = 0xB"
    by (simp add: hw_intel_l3_def read_cpuid_def)
  moreover have "lpi_buffer_size os_two = 48" "lpi_malloc_ok os_two" "lpi_query_ok os_two"
    by (simp_all add: os_two_def)
  ultimately show ?thesis
    by (simp add: detect_apic_topology_def Let_def word_sle_eq word_sless_alt count_two
        set_two loop_intel_two record_intel_l3)
qed
text \<open>The array \<open>apic_ids\<close> as \<open>main\<close> prints it, and the group fields of its elements
  when the three blocks of the grouper were allocated.\<close>

lemma main_apic_ids:
  assumes "topo = fst (detect_apic_topology (host_os h) (host_hw h) (host_cpus h)
                    (host_affinity h))"
    and "G = derive_cache_sharing_groups topo (l1d (json_caches (main h)))
               (l2 (json_caches (main h))) (l3 (json_caches (main h))) (host_heap h)"
  shows "json_apic_ids (main h) =
           map (\<lambda>i. \<lparr>entry_index = logical_index (topo ! i),
                       entry_apic = apic_id (topo ! i),
                       entry_core_type = core_type (topo ! i),
                       entry_l1d_group = group_at (fst G) i,
                       entry_l2_group = group_at (fst (snd G)) i,
                       entry_l3_group = group_at (snd (snd G)) i\<rparr>)
               [0..<length topo]"
  unfolding assms by (simp add: main_def Let_def)

lemma main_entry_groups:
  assumes hp: "host_heap h = (Some b1, Some b2, Some b3)"
    and len: "length b1 = json_num_logical_cores (main h)"
      "length b2 = json_num_logical_cores (main h)"
      "length b3 = json_num_logical_cores (main h)"
    and x: "x \<in> set (json_apic_ids (main h))"
  shows "entry_l1d_group x =
           signed_drop_bit (calc_shift (cores_sharing (l1d (json_caches (main h)))))
             (entry_apic x)"
    and "entry_l2_group x =
           signed_drop_bit (calc_shift (cores_sharing (l2 (json_caches (main h)))))
             (entry_apic x)"
    and "entry_l3_group x =
           signed_drop_bit (calc_shift (cores_sharing (l3 (json_caches (main h)))))
             (entry_apic x)"
proof -
  define topo where "topo = fst (detect_apic_topology (host_os h) (host_hw h) (host_cpus h)
    (host_affinity h))"
  define G where "G = derive_cache_sharing_groups topo (l1d (json_caches (main h)))
    (l2 (json_caches (main h))) (l3 (json_caches (main h))) (host_heap h)"
  have n: "json_num_logical_cores (main h) = length topo"
    by (simp add: main_num_cores topo_def)
  note ids = main_apic_ids [OF topo_def G_def]
  from x obtain i where i: "i < length topo"
    and xi: "x = \<lparr>entry_index = logical_index (topo ! i), entry_apic = apic_id (topo ! i),
                  entry_core_type = core_type (topo ! i),
                  entry_l1d_group = group_at (fst G) i,
                  entry_l2_group = group_at (fst (snd G)) i,
                  entry_l3_group = group_at (snd (snd G)) i\<rparr>"
    unfolding ids by auto
  have ne: "topo \<noteq> []"
    using i by auto
  have g: "G =
     (Some (map (\<lambda>t. signed_drop_bit (calc_shift (cores_sharing (l1d (json_caches (main h)))))
                       (apic_id t)) topo),
      Some (map (\<lambda>t. signed_drop_bit (calc_shift (cores_sharing (l2 (json_caches (main h)))))
                       (apic_id t)) topo),
      Some (map (\<lambda>t. signed_drop_bit (calc_shift (cores_sharing (l3 (json_caches (main h)))))
                       (apic_id t)) topo))"
    unfolding G_def hp using ne len by (intro derive_groups) (simp_all add: n)
  show "entry_l1d_group x =
           signed_drop_bit (calc_shift (cores_sharing (l1d (json_caches (main h)))))
             (entry_apic x)"
    and "entry_l2_group x =
           signed_drop_bit (calc_shift (cores_sharing (l2 (json_caches (main h)))))
             (entry_apic x)"
    and "entry_l3_group x =
           signed_drop_bit (calc_shift (cores_sharing (l3 (json_caches (main h)))))
             (entry_apic x)"
    using i by (simp_all add: xi g group_at_def)
qed

text \<open>
  Claim C6. The shift derived from a sharing count is 0 for a count of at most 1 and the
  integer part of its binary logarithm otherwise; for a level whose sharing-width field
  decodes to \<open>cores_sharing = 8\<close> it is 3. For such a level the grouper, given a
  non-empty enumeration and its three blocks, returns the array of the hardware
  identifiers shifted right by 3, so two processors whose identifiers differ only in
  their low 3 bits have the same group id; and in the printed object every element of
  \<open>apic_ids\<close> carries its identifier shifted right by 3 as the group of that level, equal
  for two elements whose identifiers differ only in their low 3 bits.
\<close>

theorem sharing_eight_groups:
  "(c \<le>s 1 \<longrightarrow> calc_shift c = 0) \<and>
   (1 <s c \<longrightarrow> 2 ^ calc_shift c \<le> sint c \<and> sint c < 2 ^ (calc_shift c + 1)) \<and>
   (decode_cores_sharing e = 8 \<longrightarrow> calc_shift (decode_cores_sharing e) = 3) \<and>
   (topo_array \<noteq> [] \<and> length b1 = length topo_array \<and> length b2 = length topo_array \<and>
    length b3 = length topo_array \<and> i < length topo_array \<and> j < length topo_array \<and>
    apic_id (topo_array ! i) AND NOT 7 = apic_id (topo_array ! j) AND NOT 7 \<longrightarrow>
      (case derive_cache_sharing_groups topo_array l1d_info l2_info l3_info
              (Some b1, Some b2, Some b3) of
         (l1d_groups, l2_groups, l3_groups) \<Rightarrow>
           (cores_sharing l1d_info = 8 \<longrightarrow>
              l1d_groups = Some (map (\<lambda>t. signed_drop_bit 3 (apic_id t)) topo_array) \<and>
              group_at l1d_groups i = group_at l1d_groups j) \<and>
           (cores_sharing l2_info = 8 \<longrightarrow>
              l2_groups = Some (map (\<lambda>t. signed_drop_bit 3 (apic_id t)) topo_array) \<and>
              group_at l2_groups i = group_at l2_groups j) \<and>
           (cores_sharing l3_info = 8 \<longrightarrow>
              l3_groups = Some (map (\<lambda>t. signed_drop_bit 3 (apic_id t)) topo_array) \<and>
              group_at l3_groups i = group_at l3_groups j))) \<and>
   (host_heap h = (Some h1, Some h2, Some h3) \<and>
    length h1 = json_num_logical_cores (main h) \<and>
    length h2 = json_num_logical_cores (main h) \<and>
    length h3 = json_num_logical_cores (main h) \<and>
    x \<in> set (json_apic_ids (main h)) \<and> y \<in> set (json_apic_ids (main h)) \<and>
    entry_apic x AND NOT 7 = entry_apic y AND NOT 7 \<longrightarrow>
      (cores_sharing (l1d (json_caches (main h))) = 8 \<longrightarrow>
         entry_l1d_group x = signed_drop_bit 3 (entry_apic x) \<and>
         entry_l1d_group x = entry_l1d_group y) \<and>
      (cores_sharing (l2 (json_caches (main h))) = 8 \<longrightarrow>
         entry_l2_group x = signed_drop_bit 3 (entry_apic x) \<and>
         entry_l2_group x = entry_l2_group y) \<and>
      (cores_sharing (l3 (json_caches (main h))) = 8 \<longrightarrow>
         entry_l3_group x = signed_drop_bit 3 (entry_apic x) \<and>
         entry_l3_group x = entry_l3_group y))"
proof (intro conjI)
  show "c \<le>s 1 \<longrightarrow> calc_shift c = 0"
    by (simp add: calc_shift_def)
  show "1 <s c \<longrightarrow> 2 ^ calc_shift c \<le> sint c \<and> sint c < 2 ^ (calc_shift c + 1)"
    using calc_shift_log [of c] by blast
  show "decode_cores_sharing e = 8 \<longrightarrow> calc_shift (decode_cores_sharing e) = 3"
    by (simp add: calc_shift_8)
next
  show "topo_array \<noteq> [] \<and> length b1 = length topo_array \<and> length b2 = length topo_array \<and>
    length b3 = length topo_array \<and> i < length topo_array \<and> j < length topo_array \<and>
    apic_id (topo_array ! i) AND NOT 7 = apic_id (topo_array ! j) AND NOT 7 \<longrightarrow>
      (case derive_cache_sharing_groups topo_array l1d_info l2_info l3_info
              (Some b1, Some b2, Some b3) of
         (l1d_groups, l2_groups, l3_groups) \<Rightarrow>
           (cores_sharing l1d_info = 8 \<longrightarrow>
              l1d_groups = Some (map (\<lambda>t. signed_drop_bit 3 (apic_id t)) topo_array) \<and>
              group_at l1d_groups i = group_at l1d_groups j) \<and>
           (cores_sharing l2_info = 8 \<longrightarrow>
              l2_groups = Some (map (\<lambda>t. signed_drop_bit 3 (apic_id t)) topo_array) \<and>
              group_at l2_groups i = group_at l2_groups j) \<and>
           (cores_sharing l3_info = 8 \<longrightarrow>
              l3_groups = Some (map (\<lambda>t. signed_drop_bit 3 (apic_id t)) topo_array) \<and>
              group_at l3_groups i = group_at l3_groups j))"
  proof
    assume h: "topo_array \<noteq> [] \<and> length b1 = length topo_array \<and>
      length b2 = length topo_array \<and> length b3 = length topo_array \<and>
      i < length topo_array \<and> j < length topo_array \<and>
      apic_id (topo_array ! i) AND NOT 7 = apic_id (topo_array ! j) AND NOT 7"
    then have same: "signed_drop_bit 3 (apic_id (topo_array ! i)) =
        signed_drop_bit 3 (apic_id (topo_array ! j))"
      using same_group_low3 by blast
    have d: "derive_cache_sharing_groups topo_array l1d_info l2_info l3_info
        (Some b1, Some b2, Some b3) =
       (Some (map (\<lambda>t. signed_drop_bit (calc_shift (cores_sharing l1d_info)) (apic_id t))
                topo_array),
        Some (map (\<lambda>t. signed_drop_bit (calc_shift (cores_sharing l2_info)) (apic_id t))
                topo_array),
        Some (map (\<lambda>t. signed_drop_bit (calc_shift (cores_sharing l3_info)) (apic_id t))
                topo_array))"
      using h by (intro derive_groups) simp_all
    show "case derive_cache_sharing_groups topo_array l1d_info l2_info l3_info
                (Some b1, Some b2, Some b3) of
           (l1d_groups, l2_groups, l3_groups) \<Rightarrow>
             (cores_sharing l1d_info = 8 \<longrightarrow>
                l1d_groups = Some (map (\<lambda>t. signed_drop_bit 3 (apic_id t)) topo_array) \<and>
                group_at l1d_groups i = group_at l1d_groups j) \<and>
             (cores_sharing l2_info = 8 \<longrightarrow>
                l2_groups = Some (map (\<lambda>t. signed_drop_bit 3 (apic_id t)) topo_array) \<and>
                group_at l2_groups i = group_at l2_groups j) \<and>
             (cores_sharing l3_info = 8 \<longrightarrow>
                l3_groups = Some (map (\<lambda>t. signed_drop_bit 3 (apic_id t)) topo_array) \<and>
                group_at l3_groups i = group_at l3_groups j)"
      unfolding d using h same by (simp add: group_at_def calc_shift_8)
  qed
next
  show "host_heap h = (Some h1, Some h2, Some h3) \<and>
    length h1 = json_num_logical_cores (main h) \<and>
    length h2 = json_num_logical_cores (main h) \<and>
    length h3 = json_num_logical_cores (main h) \<and>
    x \<in> set (json_apic_ids (main h)) \<and> y \<in> set (json_apic_ids (main h)) \<and>
    entry_apic x AND NOT 7 = entry_apic y AND NOT 7 \<longrightarrow>
      (cores_sharing (l1d (json_caches (main h))) = 8 \<longrightarrow>
         entry_l1d_group x = signed_drop_bit 3 (entry_apic x) \<and>
         entry_l1d_group x = entry_l1d_group y) \<and>
      (cores_sharing (l2 (json_caches (main h))) = 8 \<longrightarrow>
         entry_l2_group x = signed_drop_bit 3 (entry_apic x) \<and>
         entry_l2_group x = entry_l2_group y) \<and>
      (cores_sharing (l3 (json_caches (main h))) = 8 \<longrightarrow>
         entry_l3_group x = signed_drop_bit 3 (entry_apic x) \<and>
         entry_l3_group x = entry_l3_group y)"
  proof
    assume a: "host_heap h = (Some h1, Some h2, Some h3) \<and>
      length h1 = json_num_logical_cores (main h) \<and>
      length h2 = json_num_logical_cores (main h) \<and>
      length h3 = json_num_logical_cores (main h) \<and>
      x \<in> set (json_apic_ids (main h)) \<and> y \<in> set (json_apic_ids (main h)) \<and>
      entry_apic x AND NOT 7 = entry_apic y AND NOT 7"
    then have same: "signed_drop_bit 3 (entry_apic x) = signed_drop_bit 3 (entry_apic y)"
      using same_group_low3 by blast
    have gx: "entry_l1d_group x =
        signed_drop_bit (calc_shift (cores_sharing (l1d (json_caches (main h)))))
          (entry_apic x)"
      "entry_l2_group x =
        signed_drop_bit (calc_shift (cores_sharing (l2 (json_caches (main h)))))
          (entry_apic x)"
      "entry_l3_group x =
        signed_drop_bit (calc_shift (cores_sharing (l3 (json_caches (main h)))))
          (entry_apic x)"
      using a by (intro main_entry_groups [of h h1 h2 h3]; simp)+
    have gy: "entry_l1d_group y =
        signed_drop_bit (calc_shift (cores_sharing (l1d (json_caches (main h)))))
          (entry_apic y)"
      "entry_l2_group y =
        signed_drop_bit (calc_shift (cores_sharing (l2 (json_caches (main h)))))
          (entry_apic y)"
      "entry_l3_group y =
        signed_drop_bit (calc_shift (cores_sharing (l3 (json_caches (main h)))))
          (entry_apic y)"
      using a by (intro main_entry_groups [of h h1 h2 h3]; simp)+
    show "(cores_sharing (l1d (json_caches (main h))) = 8 \<longrightarrow>
         entry_l1d_group x = signed_drop_bit 3 (entry_apic x) \<and>
         entry_l1d_group x = entry_l1d_group y) \<and>
      (cores_sharing (l2 (json_caches (main h))) = 8 \<longrightarrow>
         entry_l2_group x = signed_drop_bit 3 (entry_apic x) \<and>
         entry_l2_group x = entry_l2_group y) \<and>
      (cores_sharing (l3 (json_caches (main h))) = 8 \<longrightarrow>
         entry_l3_group x = signed_drop_bit 3 (entry_apic x) \<and>
         entry_l3_group x = entry_l3_group y)"
      using same by (simp add: gx gy calc_shift_8)
  qed
qed
lemma caches_intel_two:
  "json_caches (main host_intel_two) = caches_zero\<lparr>l3 := decoded_info r_l3_shared8\<rparr>"
  by (simp add: main_caches host_intel_two_def vendor_intel_l3 caches_intel_l3)

lemma apic_ids_intel_two:
  "json_apic_ids (main host_intel_two) =
     [\<lparr>entry_index = 0, entry_apic = 0, entry_core_type = 0, entry_l1d_group = 0,
       entry_l2_group = 0, entry_l3_group = 0\<rparr>,
      \<lparr>entry_index = 1, entry_apic = 1, entry_core_type = 0, entry_l1d_group = 1,
       entry_l2_group = 1, entry_l3_group = 0\<rparr>]"
proof -
  define topo where "topo = fst (detect_apic_topology (host_os host_intel_two)
    (host_hw host_intel_two) (host_cpus host_intel_two) (host_affinity host_intel_two))"
  define G where "G = derive_cache_sharing_groups topo (l1d (json_caches (main host_intel_two)))
    (l2 (json_caches (main host_intel_two))) (l3 (json_caches (main host_intel_two)))
    (host_heap host_intel_two)"
  have t: "topo =
     [\<lparr>apic_id = 0, core_type = 0, core_index = 0, logical_index = 0, package_id = 0,
        tile_id = 0, die_id = 0, module_id = 0\<rparr>,
       \<lparr>apic_id = 1, core_type = 0, core_index = 0, logical_index = 1, package_id = 1,
        tile_id = 0, die_id = 0, module_id = 0\<rparr>]"
    by (simp add: topo_def host_intel_two_def topo_intel_two)
  have s0: "calc_shift (cores_sharing cache_zero) = 0"
    by (simp add: calc_shift_def cache_zero_def word_sle_eq)
  have s8: "calc_shift (cores_sharing (decoded_info r_l3_shared8)) = 3"
    by (simp add: decoded_info_def sharing_l3_shared8 calc_shift_8)
  have hp: "host_heap host_intel_two = (Some [0, 0], Some [0, 0], Some [0, 0])"
    by (simp add: host_intel_two_def)
  have g: "G = (Some [0, 1], Some [0, 1], Some [0, 0])"
    unfolding G_def caches_intel_two hp
    by (simp add: t caches_zero_def derive_groups s0 s8)
  show ?thesis
    unfolding main_apic_ids [OF topo_def G_def] g
    by (simp add: t group_at_def upt_rec)
qed

theorem sharing_eight_groups_witness:
  "decode_cores_sharing (eax r_l3_shared8) = 8 \<and>
   calc_shift (decode_cores_sharing (eax r_l3_shared8)) = 3 \<and>
   topo16 \<noteq> [] \<and> length (replicate 16 (0 :: 32 word)) = length topo16 \<and>
   9 < length topo16 \<and> 14 < length topo16 \<and>
   apic_id (topo16 ! 9) = 9 \<and> apic_id (topo16 ! 14) = 14 \<and>
   apic_id (topo16 ! 9) AND NOT 7 = apic_id (topo16 ! 14) AND NOT 7 \<and>
   cores_sharing (decoded_info r_l3_shared8) = 8 \<and>
   snd (snd (derive_cache_sharing_groups topo16 cache_zero cache_zero
      (decoded_info r_l3_shared8)
      (Some (replicate 16 0), Some (replicate 16 0), Some (replicate 16 0)))) =
     Some (map (\<lambda>t. signed_drop_bit 3 (apic_id t)) topo16) \<and>
   group_at (snd (snd (derive_cache_sharing_groups topo16 cache_zero cache_zero
      (decoded_info r_l3_shared8)
      (Some (replicate 16 0), Some (replicate 16 0), Some (replicate 16 0))))) 9 =
   group_at (snd (snd (derive_cache_sharing_groups topo16 cache_zero cache_zero
      (decoded_info r_l3_shared8)
      (Some (replicate 16 0), Some (replicate 16 0), Some (replicate 16 0))))) 14 \<and>
   host_heap host_intel_two = (Some [0, 0], Some [0, 0], Some [0, 0]) \<and>
   json_num_logical_cores (main host_intel_two) = 2 \<and>
   cores_sharing (l3 (json_caches (main host_intel_two))) = 8 \<and>
   json_apic_ids (main host_intel_two) =
     [\<lparr>entry_index = 0, entry_apic = 0, entry_core_type = 0, entry_l1d_group = 0,
       entry_l2_group = 0, entry_l3_group = 0\<rparr>,
      \<lparr>entry_index = 1, entry_apic = 1, entry_core_type = 0, entry_l1d_group = 1,
       entry_l2_group = 1, entry_l3_group = 0\<rparr>] \<and>
   entry_l3_group \<lparr>entry_index = 0, entry_apic = 0, entry_core_type = 0, entry_l1d_group = 0,
       entry_l2_group = 0, entry_l3_group = 0\<rparr> =
   entry_l3_group \<lparr>entry_index = 1, entry_apic = 1, entry_core_type = 0, entry_l1d_group = 1,
       entry_l2_group = 1, entry_l3_group = 0\<rparr>"
proof -
  let ?x = "\<lparr>entry_index = 0, entry_apic = 0, entry_core_type = 0, entry_l1d_group = 0,
       entry_l2_group = 0, entry_l3_group = 0 :: 32 word\<rparr>"
  let ?y = "\<lparr>entry_index = 1, entry_apic = 1, entry_core_type = 0, entry_l1d_group = 1,
       entry_l2_group = 1, entry_l3_group = 0 :: 32 word\<rparr>"
  let ?d = "derive_cache_sharing_groups topo16 cache_zero cache_zero
      (decoded_info r_l3_shared8)
      (Some (replicate 16 0), Some (replicate 16 0), Some (replicate 16 0))"
  have e: "decode_cores_sharing (eax r_l3_shared8) = 8"
    by (rule sharing_l3_shared8)
  have c: "cores_sharing (decoded_info r_l3_shared8) = 8"
    by (simp add: decoded_info_def e)
  have t: "topo16 \<noteq> []" "length (replicate 16 (0 :: 32 word)) = length topo16"
    "9 < length topo16" "14 < length topo16"
    "apic_id (topo16 ! 9) = 9" "apic_id (topo16 ! 14) = 14"
    by (simp_all add: topo16_def)
  have m: "apic_id (topo16 ! 9) AND NOT 7 = apic_id (topo16 ! 14) AND NOT 7"
    by (simp add: t)
  have hp: "host_heap host_intel_two = (Some [0, 0], Some [0, 0], Some [0, 0])"
    by (simp add: host_intel_two_def)
  have n: "json_num_logical_cores (main host_intel_two) = 2"
    by (simp add: main_num_cores host_intel_two_def topo_intel_two)
  have cs: "cores_sharing (l3 (json_caches (main host_intel_two))) = 8"
    by (simp add: caches_intel_two c)
  have xy: "?x \<in> set (json_apic_ids (main host_intel_two))"
    "?y \<in> set (json_apic_ids (main host_intel_two))"
    "entry_apic ?x AND NOT 7 = entry_apic ?y AND NOT 7"
    by (simp_all add: apic_ids_intel_two)
  note inst = sharing_eight_groups [where c = 8 and e = "eax r_l3_shared8"
      and topo_array = topo16 and ?b1.0 = "replicate 16 0" and ?b2.0 = "replicate 16 0"
      and ?b3.0 = "replicate 16 0" and i = 9 and j = 14 and l1d_info = cache_zero
      and l2_info = cache_zero and l3_info = "decoded_info r_l3_shared8"
      and h = host_intel_two and ?h1.0 = "[0, 0]" and ?h2.0 = "[0, 0]" and ?h3.0 = "[0, 0]"
      and x = ?x and y = ?y]
  have grouper: "snd (snd ?d) = Some (map (\<lambda>t. signed_drop_bit 3 (apic_id t)) topo16) \<and>
      group_at (snd (snd ?d)) 9 = group_at (snd (snd ?d)) 14"
    using inst t m c by (cases ?d) simp
  have printed: "entry_l3_group ?x = entry_l3_group ?y"
    using inst hp n cs xy by simp
  have k: "calc_shift (decode_cores_sharing (eax r_l3_shared8)) = 3"
    using inst e by simp
  note g = grouper [THEN conjunct1] grouper [THEN conjunct2]
  note ids = apic_ids_intel_two
  show ?thesis
    by (intro conjI) (fact e k t m c g hp n cs ids printed)+
qed

section \<open>Properties of the topology enumerator\<close>

text \<open>The recorded core type is the high byte of \<open>eax\<close> of leaf 0x1A as it is read, and 0
  when the leaf is not supported.\<close>

lemma core_type_recorded:
  "core_type (topology_record hw max_leaf topo_leaf lp) =
     (if 0x1A \<le>s max_leaf then signed_drop_bit 24 (eax (hw 0x1A 0)) AND 0xFF else 0)"
  by (simp add: topology_record_def read_core_type_def read_cpuid_def Let_def
      split: prod.splits)

text \<open>
  Claim C9 on the code: on a hybrid processor the recorded \<open>core_type\<close> is the raw byte,
  \<open>0x40\<close> (64) on a performance core and \<open>0x20\<close> (32) on an efficiency core, neither of
  which is a value of the enumeration 0, 1, 2 that the record documents.
\<close>

theorem core_type_is_raw_byte:
  "core_type (topology_record (hw_hybrid 0x40) 0x1A 0xB 0) = 64 \<and>
   core_type (topology_record (hw_hybrid 0x20) 0x1A 0xB 0) = 32 \<and>
   core_type (topology_record (hw_plain 0) 0xB 0xB 0) = 0"
  by (simp add: core_type_recorded hw_hybrid_def hw_plain_def zero_result_def word_sle_eq)

text \<open>The evaluation of the enumeration on \<open>os_no_cpu0\<close>.\<close>

lemma count_no_cpu0: "count_logical_processors (lpi_infos os_no_cpu0) = 3"
  by (simp add: os_no_cpu0_def count_logical_processors_def count_mask_bits.simps)

lemma set_no_cpu0:
  "SetThreadAffinityMask os_no_cpu0 1 a = (0, a)"
  "SetThreadAffinityMask os_no_cpu0 2 a = (a, 2)"
  "SetThreadAffinityMask os_no_cpu0 4 a = (a, 4)"
  by (simp_all add: SetThreadAffinityMask_def os_no_cpu0_def)

lemma loop_no_cpu0:
  "topo_loop os_no_cpu0 (\<lambda>lp. hw_plain (of_nat lp)) 0xB 0xB 3 0 [] 6 =
     ([topology_record (hw_plain 1) 0xB 0xB 1, topology_record (hw_plain 2) 0xB 0xB 2], 4)"
  apply (subst topo_loop.simps)
  apply (simp add: set_no_cpu0 record_plain Let_def)
  apply (subst topo_loop.simps)
  apply (simp add: set_no_cpu0 record_plain Let_def)
  apply (subst topo_loop.simps)
  apply (simp add: set_no_cpu0 record_plain Let_def)
  apply (subst topo_loop.simps)
  apply (simp add: record_plain)
  done

text \<open>
  Claim C3 on the code: the process may not run on processor 0, so the call
  \<open>SetThreadAffinityMask(current_thread, 1)\<close> that is meant to save the affinity fails
  and returns 0; the loop still pins the thread to processors 1 and 2 in turn, and the
  restoration is skipped because \<open>original_affinity\<close> is 0. The thread entered with the
  affinity \<open>0b110\<close> and leaves pinned to processor 2 (\<open>0b100\<close>).
\<close>

theorem affinity_not_restored:
  "SetThreadAffinityMask os_no_cpu0 1 6 = (0, 6) \<and>
   length (fst (detect_apic_topology os_no_cpu0 (hw_plain 0) (\<lambda>lp. hw_plain (of_nat lp)) 6)) = 2 \<and>
   snd (detect_apic_topology os_no_cpu0 (hw_plain 0) (\<lambda>lp. hw_plain (of_nat lp)) 6) = 4"
proof -
  have "eax (read_cpuid (hw_plain 0) 0 0) = 0xB"
    by (simp add: hw_plain_def read_cpuid_def zero_result_def)
  moreover have "lpi_buffer_size os_no_cpu0 = 144" "lpi_malloc_ok os_no_cpu0"
    "lpi_query_ok os_no_cpu0"
    by (simp_all add: os_no_cpu0_def)
  ultimately show ?thesis
    by (simp add: detect_apic_topology_def Let_def word_sle_eq word_sless_alt count_no_cpu0
        set_no_cpu0 loop_no_cpu0)
qed

text \<open>
  When the saving call succeeds, that is when processor 0 belongs to the process affinity
  mask, the affinity at exit is the affinity at entry on every path: the early returns
  precede any change, and the restoring call succeeds because the saved mask is a valid
  one (a thread's affinity mask is never 0 and always within the process mask).
\<close>

theorem affinity_restored_when_saved:
  assumes "valid_affinity os affinity" and "valid_affinity os 1"
  shows "snd (detect_apic_topology os hw cpus affinity) = affinity"
proof -
  have save: "SetThreadAffinityMask os 1 affinity = (affinity, 1)"
    using assms(2) by (simp add: SetThreadAffinityMask_def valid_affinity_def)
  have restore: "snd (SetThreadAffinityMask os affinity a) = affinity" for a
    using assms(1) by (simp add: SetThreadAffinityMask_def valid_affinity_def)
  have "affinity \<noteq> 0"
    using assms(1) by (simp add: valid_affinity_def)
  then show ?thesis
    by (simp add: detect_apic_topology_def Let_def save restore)
qed

theorem affinity_restored_when_saved_witness:
  "valid_affinity os_two 3 \<and> valid_affinity os_two 1 \<and>
   snd (detect_apic_topology os_two (hw_plain 0) (\<lambda>lp. hw_plain (of_nat lp)) 3) = 3"
proof -
  have a: "valid_affinity os_two 3" and b: "valid_affinity os_two 1"
    by (simp_all add: valid_affinity_def os_two_def)
  show ?thesis
    using a b affinity_restored_when_saved [OF a b] by simp
qed
section \<open>Further properties\<close>

text \<open>The loop of the decoder reads the same subleaves on two processors that answer
  alike from the current subleaf to a terminating one.\<close>

lemma intel_loop_agree:
  assumes "k \<le> n" and "n < 32" and "eax (hw 4 (of_nat n)) AND 0x1F = 0"
    and "\<forall>m. k \<le> m \<and> m \<le> n \<longrightarrow> hw' 4 (of_nat m) = hw 4 (of_nat m)"
  shows "intel_loop hw' k cs = intel_loop hw k cs"
  using assms
proof (induction "n - k" arbitrary: k cs)
  case 0
  then have "k = n"
    by simp
  then show ?case
    using "0.prems" by (simp add: intel_loop.simps [of _ n] read_cpuid_def)
next
  case (Suc d)
  then have k: "k < n" "k < 32" and same: "hw' 4 (of_nat k) = hw 4 (of_nat k)"
    by simp_all
  have "intel_loop hw' (k + 1) cs' = intel_loop hw (k + 1) cs'" for cs'
    using Suc.hyps(2) Suc.prems k by (intro Suc.hyps(1)) simp_all
  then show ?case
    using k same
    by (subst intel_loop.simps [of hw']) (subst intel_loop.simps [of hw],
        simp add: read_cpuid_def Let_def)
qed

text \<open>
  The decoder stops at the first subleaf of type 0: what leaf 4 answers behind that
  subleaf has no influence on the result.
\<close>

theorem decoder_stops_at_type0:
  assumes "n < 32" and "eax (hw 4 (of_nat n)) AND 0x1F = 0"
    and "\<forall>m. m \<le> n \<longrightarrow> hw' 4 (of_nat m) = hw 4 (of_nat m)"
  shows "detect_intel_caches hw' cs = detect_intel_caches hw cs"
  unfolding detect_intel_caches_def
  using assms by (intro intel_loop_agree [of 0 n]) simp_all

theorem decoder_stops_at_type0_witness:
  "(2 :: nat) < 32 \<and> eax (hw_dup_l1d 4 (of_nat 2)) AND 0x1F = 0 \<and>
   hw_dup_l1d_more 4 3 \<noteq> hw_dup_l1d 4 3 \<and>
   detect_intel_caches hw_dup_l1d_more caches_zero = detect_intel_caches hw_dup_l1d caches_zero"
proof -
  have a: "(2 :: nat) < 32" and b: "eax (hw_dup_l1d 4 (of_nat 2)) AND 0x1F = 0"
    by (simp_all add: hw_dup_l1d_def zero_result_def)
  have c: "\<forall>m. m \<le> 2 \<longrightarrow> hw_dup_l1d_more 4 (of_nat m) = hw_dup_l1d 4 (of_nat m)"
  proof (intro allI impI)
    fix m :: nat
    assume "m \<le> 2"
    then have "m = 0 \<or> m = 1 \<or> m = 2"
      by auto
    then show "hw_dup_l1d_more 4 (of_nat m) = hw_dup_l1d 4 (of_nat m)"
      by (auto simp: hw_dup_l1d_more_def)
  qed
  have d: "hw_dup_l1d_more 4 3 \<noteq> hw_dup_l1d 4 3"
    by (simp add: hw_dup_l1d_more_def hw_dup_l1d_def r_l3_shared8_def zero_result_def)
  show ?thesis
    using a b d decoder_stops_at_type0 [of 2 hw_dup_l1d hw_dup_l1d_more caches_zero, OF a b c]
    by simp
qed

text \<open>
  The end-to-end scenario of sixteen logical processors with hardware identifiers 0 to
  15 and a level-3 cache shared by 8: the grouper forms the two groups 0 (identifiers
  0 to 7) and 1 (identifiers 8 to 15), and the count of level-3 instances is 2.
\<close>

theorem sixteen_processors_two_l3_groups:
  "snd (snd (derive_cache_sharing_groups topo16 cache_zero cache_zero
      (decoded_info r_l3_shared8)
      (Some (replicate 16 0), Some (replicate 16 0), Some (replicate 16 0)))) =
     Some [0, 0, 0, 0, 0, 0, 0, 0, 1, 1, 1, 1, 1, 1, 1, 1] \<and>
   count_unique [0, 0, 0, 0, 0, 0, 0, 0, 1, 1, 1, 1, 1, 1, 1, 1] 16 = 2"
proof -
  have c: "cores_sharing (decoded_info r_l3_shared8) = 8"
    by (simp add: decoded_info_def decode_cores_sharing_def r_l3_shared8_def
        bit_count_loop.simps Let_def)
  have t: "topo16 \<noteq> []" "length (replicate 16 (0 :: 32 word)) = length topo16"
    by (simp_all add: topo16_def)
  have "map (\<lambda>t. signed_drop_bit 3 (apic_id t)) topo16 =
      [0, 0, 0, 0, 0, 0, 0, 0, 1, 1, 1, 1, 1, 1, 1, 1]"
    by (simp add: topo16_def upt_rec)
  then have "snd (snd (derive_cache_sharing_groups topo16 cache_zero cache_zero
      (decoded_info r_l3_shared8)
      (Some (replicate 16 0), Some (replicate 16 0), Some (replicate 16 0)))) =
     Some [0, 0, 0, 0, 0, 0, 0, 0, 1, 1, 1, 1, 1, 1, 1, 1]"
    by (simp add: derive_groups [OF t(1) t(2) t(2) t(2)] c calc_shift_8)
  moreover have "count_unique [0, 0, 0, 0, 0, 0, 0, 0, 1, 1, 1, 1, 1, 1, 1, 1] 16 = 2"
    by (simp add: count_unique_def count_step_def word_sle_eq word_sless_alt upt_rec)
  ultimately show ?thesis
    by simp
qed

end
